theory Spec2Isabelle
  imports Complex_Main
begin

text \<open>
  The two components of the repository, \<^verbatim>\<open>ThreeIrisBG.jsx\<close> and \<^verbatim>\<open>ThreeIris.jsx\<close>, draw the
  same animated iris: a shader on a disc, three rings of markers behind it, and two
  per-frame callbacks that advance the shader's time, turn the groups and tilt the lens
  toward the pointer. Names ending in \<open>_BG\<close> model the first file, names ending in
  \<open>_Iris\<close> the second; code that is the same in both is modelled once. The definitions
  come first, each beside the source it translates; the results follow, by component.
\<close>

section \<open>The reduced-motion query\<close>

text \<open>
  The two components, \<^verbatim>\<open>ThreeIrisBG.jsx\<close> and \<^verbatim>\<open>ThreeIris.jsx\<close>, each begin with a
  hook \<^verbatim>\<open>useReducedMotion\<close> that asks the host whether the user prefers reduced motion.
  The host is modelled by what the hook can observe of it: whether \<^verbatim>\<open>window\<close> exists,
  whether it has a \<^verbatim>\<open>matchMedia\<close> function, and what that function returns for a query
  (\<open>None\<close> for \<^verbatim>\<open>null\<close> or \<^verbatim>\<open>undefined\<close>, on which reading \<^verbatim>\<open>.matches\<close> throws).
\<close>

datatype js_error = TypeError

record MediaQueryList =
  matches :: bool

record window =
  matchMedia :: "(string \<Rightarrow> MediaQueryList option) option"

definition reduce_query :: string where
  "reduce_query = ''(prefers-reduced-motion: reduce)''"

text \<open>
  \<^verbatim>\<open>ThreeIrisBG.jsx\<close>:
  \<^verbatim>\<open>if (typeof window === "undefined") return false;
  return window.matchMedia?.("(prefers-reduced-motion: reduce)").matches || false;\<close>
  The optional call short-circuits the whole chain when \<^verbatim>\<open>matchMedia\<close> is missing.
\<close>

definition useReducedMotion_BG :: "window option \<Rightarrow> js_error + bool" where
  "useReducedMotion_BG env =
     (case env of
        None \<Rightarrow> Inr False
      | Some w \<Rightarrow>
          (case matchMedia w of
             None \<Rightarrow> Inr False
           | Some f \<Rightarrow>
               (case f reduce_query of
                  None \<Rightarrow> Inl TypeError
                | Some m \<Rightarrow> Inr (matches m \<or> False))))"

text \<open>
  \<^verbatim>\<open>ThreeIris.jsx\<close>:
  \<^verbatim>\<open>const prefers = typeof window !== "undefined" && window.matchMedia &&
    window.matchMedia("(prefers-reduced-motion: reduce)").matches;
  return !!prefers;\<close>
\<close>

definition useReducedMotion_Iris :: "window option \<Rightarrow> js_error + bool" where
  "useReducedMotion_Iris env =
     (case env of
        None \<Rightarrow> Inr False
      | Some w \<Rightarrow>
          (case matchMedia w of
             None \<Rightarrow> Inr False
           | Some f \<Rightarrow>
               (case f reduce_query of
                  None \<Rightarrow> Inl TypeError
                | Some m \<Rightarrow> Inr (\<not> \<not> matches m))))"

section \<open>The iris shader\<close>

text \<open>
  The fragment shader is GLSL. The language leaves the precision of \<^verbatim>\<open>highp float\<close> and
  of its built-in functions to the implementation, so the shader is modelled as the real
  function it approximates. The built-ins are those of the GLSL ES specification:
  \<^verbatim>\<open>clamp(x, a, b) = min(max(x, a), b)\<close>, \<^verbatim>\<open>mix(x, y, a) = x * (1 - a) + y * a\<close>,
  \<^verbatim>\<open>length\<close> the Euclidean norm, and
  \<^verbatim>\<open>smoothstep(edge0, edge1, x)\<close> the value \<^verbatim>\<open>t * t * (3 - 2 * t)\<close> for
  \<^verbatim>\<open>t = clamp((x - edge0) / (edge1 - edge0), 0, 1)\<close>. The specification of the language
  gives no meaning to \<^verbatim>\<open>smoothstep\<close> when \<^verbatim>\<open>edge0 >= edge1\<close>; implementations evaluate
  the formula, and the shader's alpha relies on that.
\<close>

type_synonym vec2 = "real \<times> real"
type_synonym vec3 = "real \<times> real \<times> real"
type_synonym vec4 = "vec3 \<times> real"

definition glsl_clamp :: "real \<Rightarrow> real \<Rightarrow> real \<Rightarrow> real" where
  "glsl_clamp x minVal maxVal = min (max x minVal) maxVal"

definition glsl_mix :: "real \<Rightarrow> real \<Rightarrow> real \<Rightarrow> real" where
  "glsl_mix x y a = x * (1 - a) + y * a"

fun glsl_mix3 :: "vec3 \<Rightarrow> vec3 \<Rightarrow> real \<Rightarrow> vec3" where
  "glsl_mix3 (x1, x2, x3) (y1, y2, y3) a = (glsl_mix x1 y1 a, glsl_mix x2 y2 a, glsl_mix x3 y3 a)"

fun glsl_scale3 :: "vec3 \<Rightarrow> real \<Rightarrow> vec3" where
  "glsl_scale3 (x1, x2, x3) s = (x1 * s, x2 * s, x3 * s)"

definition smoothstep :: "real \<Rightarrow> real \<Rightarrow> real \<Rightarrow> real" where
  "smoothstep edge0 edge1 x =
     (let t = glsl_clamp ((x - edge0) / (edge1 - edge0)) 0 1
      in t * t * (3 - 2 * t))"

fun glsl_length :: "vec2 \<Rightarrow> real" where
  "glsl_length (x, y) = sqrt (x * x + y * y)"

text \<open>
  The two-argument \<^verbatim>\<open>atan(y, x)\<close>: the angle of the point \<open>(x, y)\<close>, in \<open>(-\<pi>, \<pi>]\<close>. GLSL
  leaves the value at the origin undefined; the model takes 0 there. No result below
  depends on that choice.
\<close>

definition atan2 :: "real \<Rightarrow> real \<Rightarrow> real" where
  "atan2 y x =
     (if 0 < x then arctan (y / x)
      else if x < 0 then (if 0 \<le> y then arctan (y / x) + pi else arctan (y / x) - pi)
      else if 0 < y then pi / 2
      else if y < 0 then - (pi / 2)
      else 0)"

text \<open>
  \<^verbatim>\<open>vec2 toPolar(vec2 p){ float r=length(p), a=atan(p.y,p.x); return vec2(r,a); }\<close>
\<close>

definition toPolar :: "vec2 \<Rightarrow> vec2" where
  "toPolar p = (let r = glsl_length p; a = atan2 (snd p) (fst p) in (r, a))"

text \<open>
  \<^verbatim>\<open>ThreeIrisBG.jsx\<close>, the fragment shader of \<^verbatim>\<open>makeIrisMaterial\<close>. Its inputs are the
  uniforms and the interpolated surface coordinate \<^verbatim>\<open>vUv\<close>; its output is
  \<^verbatim>\<open>gl_FragColor = vec4(base, alpha)\<close>.
  \<^verbatim>\<open>vec2 uv = vUv*2.0-1.0;
  vec2 polar = toPolar(uv);
  float r = polar.x, a = polar.y;
  float stripes = sin(a*32.0 + r*24.0 - u_time*0.6)*0.5+0.5;
  float fibers  = sin(a*96.0 - u_time*0.9)*0.5+0.5;
  vec3 base = mix(u_primary, u_secondary, stripes*0.7 + fibers*0.3);
  float glintMask = smoothstep(0.68, 0.86, r) * (0.7 + 0.3*sin(a*6.0 + u_time*0.7));
  base = mix(base, u_glint, glintMask*0.08);
  float vignette = smoothstep(0.0, 0.1, r);
  base *= mix(0.2, 1.0, vignette);
  float alpha = smoothstep(0.99, 0.96, r);
  gl_FragColor = vec4(base, alpha);\<close>
\<close>

definition fragment_BG :: "real \<Rightarrow> vec3 \<Rightarrow> vec3 \<Rightarrow> vec3 \<Rightarrow> vec2 \<Rightarrow> vec4" where
  "fragment_BG u_time u_primary u_secondary u_glint vUv =
     (let uv = (fst vUv * 2 - 1, snd vUv * 2 - 1);
          polar = toPolar uv;
          r = fst polar;
          a = snd polar;
          stripes = sin (a * 32 + r * 24 - u_time * 0.6) * 0.5 + 0.5;
          fibers = sin (a * 96 - u_time * 0.9) * 0.5 + 0.5;
          base = glsl_mix3 u_primary u_secondary (stripes * 0.7 + fibers * 0.3);
          glintMask = smoothstep 0.68 0.86 r * (0.7 + 0.3 * sin (a * 6 + u_time * 0.7));
          base1 = glsl_mix3 base u_glint (glintMask * 0.08);
          vignette = smoothstep 0 0.1 r;
          base2 = glsl_scale3 base1 (glsl_mix 0.2 1 vignette);
          alpha = smoothstep 0.99 0.96 r
      in (base2, alpha))"

text \<open>
  \<^verbatim>\<open>ThreeIris.jsx\<close>, the fragment shader of \<^verbatim>\<open>IrisMaterial\<close>: the same statements, and one
  more local that nothing reads,
  \<^verbatim>\<open>float ringBand = smoothstep(0.15, 0.95, r) * (1.0 - smoothstep(0.88, 0.99, r));\<close>
\<close>

definition fragment_Iris :: "real \<Rightarrow> vec3 \<Rightarrow> vec3 \<Rightarrow> vec3 \<Rightarrow> vec2 \<Rightarrow> vec4" where
  "fragment_Iris u_time u_primary u_secondary u_glint vUv =
     (let uv = (fst vUv * 2 - 1, snd vUv * 2 - 1);
          polar = toPolar uv;
          r = fst polar;
          a = snd polar;
          stripes = sin (a * 32 + r * 24 - u_time * 0.6) * 0.5 + 0.5;
          fibers = sin (a * 96 - u_time * 0.9) * 0.5 + 0.5;
          ringBand = smoothstep 0.15 0.95 r * (1 - smoothstep 0.88 0.99 r);
          base = glsl_mix3 u_primary u_secondary (stripes * 0.7 + fibers * 0.3);
          glintMask = smoothstep 0.68 0.86 r * (0.7 + 0.3 * sin (a * 6 + u_time * 0.7));
          base1 = glsl_mix3 base u_glint (glintMask * 0.08);
          vignette = smoothstep 0 0.1 r;
          base2 = glsl_scale3 base1 (glsl_mix 0.2 1 vignette);
          alpha = smoothstep 0.99 0.96 r
      in (base2, alpha))"

subsection \<open>The specification's reference definition\<close>

text \<open>
  The specification's own formulas: \<open>p = uv*2-1\<close>, \<open>(r, a) = (|p|, atan2(p.y, p.x))\<close>,
  \<open>stripes = 0.5 + 0.5*sin(32a + 24r - 0.6t)\<close>, \<open>fibers = 0.5 + 0.5*sin(96a - 0.9t)\<close>,
  \<open>base = lerp(primary, secondary, 0.7*stripes + 0.3*fibers)\<close>,
  \<open>glintMask = smoothstep(0.68, 0.86, r) * (0.7 + 0.3*sin(6a + 0.7t))\<close>,
  \<open>base = lerp(base, glint, 0.08*glintMask)\<close>,
  \<open>vignette = smoothstep(0.0, 0.1, r); base *= lerp(0.2, 1.0, vignette)\<close>,
  \<open>alpha = smoothstep(0.99, 0.96, r)\<close>, output \<open>(base, alpha)\<close>. Here \<open>lerp\<close> is linear
  interpolation, \<open>|p|\<close> the Euclidean norm, and \<open>smoothstep\<close> the standard clamped cubic,
  which is the function above.
\<close>

definition lerp :: "real \<Rightarrow> real \<Rightarrow> real \<Rightarrow> real" where
  "lerp a b t = a + (b - a) * t"

fun lerp3 :: "vec3 \<Rightarrow> vec3 \<Rightarrow> real \<Rightarrow> vec3" where
  "lerp3 (a1, a2, a3) (b1, b2, b3) t = (lerp a1 b1 t, lerp a2 b2 t, lerp a3 b3 t)"

definition iris_reference :: "real \<Rightarrow> vec3 \<Rightarrow> vec3 \<Rightarrow> vec3 \<Rightarrow> vec2 \<Rightarrow> vec4" where
  "iris_reference t primary secondary glint uv =
     (let p = (fst uv * 2 - 1, snd uv * 2 - 1);
          r = sqrt ((fst p)\<^sup>2 + (snd p)\<^sup>2);
          a = atan2 (snd p) (fst p);
          stripes = 0.5 + 0.5 * sin (32 * a + 24 * r - 0.6 * t);
          fibers = 0.5 + 0.5 * sin (96 * a - 0.9 * t);
          base = lerp3 primary secondary (0.7 * stripes + 0.3 * fibers);
          glintMask = smoothstep 0.68 0.86 r * (0.7 + 0.3 * sin (6 * a + 0.7 * t));
          base1 = lerp3 base glint (0.08 * glintMask);
          vignette = smoothstep 0 0.1 r;
          base2 = (case base1 of (c1, c2, c3) \<Rightarrow>
                     (c1 * lerp 0.2 1 vignette, c2 * lerp 0.2 1 vignette, c3 * lerp 0.2 1 vignette));
          alpha = smoothstep 0.99 0.96 r
      in (base2, alpha))"

section \<open>JavaScript numbers\<close>

text \<open>
  A JavaScript Number is an IEEE 754 double. Each arithmetic operator and each decimal
  literal denotes the exact real result rounded to a double, and \<^verbatim>\<open>Math.cos\<close>,
  \<^verbatim>\<open>Math.sin\<close> and \<^verbatim>\<open>Math.PI\<close> are approximations supplied by the engine. Finite Numbers
  are modelled by the reals they denote; the rounding function and the Math library are
  explicit parameters of every definition that computes with Numbers. Infinities and NaN
  are not modelled, except where the source guards against them (\<^verbatim>\<open>|| 0\<close>).
\<close>

record js_arith =
  rnd :: "real \<Rightarrow> real"
  Math_PI :: real
  Math_cos :: "real \<Rightarrow> real"
  Math_sin :: "real \<Rightarrow> real"

definition js_lit :: "js_arith \<Rightarrow> real \<Rightarrow> real" where
  "js_lit A x = rnd A x"

definition js_add :: "js_arith \<Rightarrow> real \<Rightarrow> real \<Rightarrow> real" where
  "js_add A x y = rnd A (x + y)"

definition js_sub :: "js_arith \<Rightarrow> real \<Rightarrow> real \<Rightarrow> real" where
  "js_sub A x y = rnd A (x - y)"

definition js_mul :: "js_arith \<Rightarrow> real \<Rightarrow> real \<Rightarrow> real" where
  "js_mul A x y = rnd A (x * y)"

definition js_div :: "js_arith \<Rightarrow> real \<Rightarrow> real \<Rightarrow> real" where
  "js_div A x y = rnd A (x / y)"

text \<open>
  Exact arithmetic: nothing is rounded and the Math library is the mathematical one.
  Statements about \<open>exact_arith\<close> describe the program up to rounding error.
\<close>

definition exact_arith :: js_arith where
  "exact_arith = \<lparr>rnd = (\<lambda>x. x), Math_PI = pi, Math_cos = cos, Math_sin = sin\<rparr>"

text \<open>
  What the results below ask of the rounding, where they ask anything. The first is
  round-to-nearest itself: the doubles are the values of the rounding function, 0 is one
  of them, and the rounding of \<open>x\<close> is a double at least as near to \<open>x\<close> as any other double.
  How ties are broken does not matter. IEEE 754 binary64 round-to-nearest is such a
  function wherever it does not overflow.
\<close>

definition round_to_nearest :: "js_arith \<Rightarrow> bool" where
  "round_to_nearest A \<longleftrightarrow>
     rnd A 0 = 0 \<and> (\<forall>x y. \<bar>rnd A x - x\<bar> \<le> \<bar>rnd A y - x\<bar>)"

text \<open>
  The second is accuracy on the range the program works in: on \<open>[-16, 16]\<close> rounding
  moves a value by at most \<open>10^-9\<close>, \<^verbatim>\<open>Math.PI\<close> is within \<open>10^-9\<close> of \<open>\<pi>\<close>, and \<^verbatim>\<open>Math.cos\<close> and
  \<^verbatim>\<open>Math.sin\<close> are within \<open>10^-9\<close> of the cosine and the sine. Doubles in that range are at
  most \<open>2^-49\<close> apart, so binary64 rounding is a million times more accurate than asked,
  and so are the engines' Math libraries.
\<close>

definition accurate :: "js_arith \<Rightarrow> bool" where
  "accurate A \<longleftrightarrow>
     (\<forall>x. \<bar>x\<bar> \<le> 16 \<longrightarrow> \<bar>rnd A x - x\<bar> \<le> 1 / 1000000000)
   \<and> \<bar>Math_PI A - pi\<bar> \<le> 1 / 1000000000
   \<and> (\<forall>t. \<bar>t\<bar> \<le> 16 \<longrightarrow> \<bar>Math_cos A t - cos t\<bar> \<le> 1 / 1000000000)
   \<and> (\<forall>t. \<bar>t\<bar> \<le> 16 \<longrightarrow> \<bar>Math_sin A t - sin t\<bar> \<le> 1 / 1000000000)"

text \<open>
  Double arithmetic itself, for the record: the binary64 numbers are the integers of
  magnitude below \<open>2^53\<close> scaled by a power of two of exponent at least \<open>-1074\<close> (no upper
  bound on the exponent: nothing here comes near overflow), rounding takes a real to a
  nearest one of them, and the Math library is taken correctly rounded. The choice among
  two nearest numbers is left open, so the definition is not executable; it serves to show
  that the two conditions above are met by doubles (\<open>round_to_nearest_binary64\<close>,
  \<open>accurate_binary64\<close> below).
\<close>

definition binary64 :: "real set" where
  "binary64 = {real_of_int m * 2 ^ k / 2 ^ 1074 | m k. \<bar>m\<bar> < 2 ^ 53}"

definition nearest_binary64 :: "real \<Rightarrow> real" where
  "nearest_binary64 x = (SOME f. f \<in> binary64 \<and> (\<forall>g\<in>binary64. \<bar>f - x\<bar> \<le> \<bar>g - x\<bar>))"

definition binary64_arith :: js_arith where
  "binary64_arith =
     \<lparr>rnd = nearest_binary64, Math_PI = nearest_binary64 pi,
      Math_cos = (\<lambda>t. nearest_binary64 (cos t)), Math_sin = (\<lambda>t. nearest_binary64 (sin t))\<rparr>"

text \<open>\<^verbatim>\<open>v || 0\<close> on a Number: \<open>None\<close> stands for \<^verbatim>\<open>undefined\<close> or NaN, which are falsy, as is 0.\<close>

definition or_zero :: "real option \<Rightarrow> real" where
  "or_zero v = (case v of None \<Rightarrow> 0 | Some n \<Rightarrow> if n = 0 then 0 else n)"

section \<open>The frame driver\<close>

text \<open>
  The state the per-frame callbacks mutate: the shader's \<^verbatim>\<open>u_time\<close> uniform and the
  Euler rotation of the two groups. A group is reached through a ref
  (\<^verbatim>\<open>group.current\<close>), which is \<^verbatim>\<open>undefined\<close> until the group is mounted: \<open>None\<close>.
\<close>

record Euler =
  rotation_x :: real
  rotation_y :: real
  rotation_z :: real

record pointer =
  pointer_x :: "real option"
  pointer_y :: "real option"

record scene =
  u_time :: real
  rings_group :: "Euler option"
  lens_group :: "Euler option"

text \<open>
  \<^verbatim>\<open>ThreeIrisBG.jsx\<close>, \<^verbatim>\<open>NeuralRings\<close>:
  \<^verbatim>\<open>useFrame((_, dt) => {
    if (!reduceMotion && group.current) group.current.rotation.z += dt * 0.03;
  });\<close>
\<close>

definition NeuralRings_useFrame_BG :: "js_arith \<Rightarrow> bool \<Rightarrow> real \<Rightarrow> Euler option \<Rightarrow> Euler option" where
  "NeuralRings_useFrame_BG A reduceMotion dt grp =
     (if \<not> reduceMotion \<and> grp \<noteq> None
      then map_option
             (\<lambda>r. r\<lparr>rotation_z := js_add A (rotation_z r) (js_mul A dt (js_lit A 0.03))\<rparr>) grp
      else grp)"

text \<open>
  \<^verbatim>\<open>ThreeIris.jsx\<close>, \<^verbatim>\<open>NeuralRings\<close>:
  \<^verbatim>\<open>useFrame((_, dt) => {
    if (reduceMotion) return;
    if (group.current) { group.current.rotation.z += dt * 0.03; }
  });\<close>
\<close>

definition NeuralRings_useFrame_Iris :: "js_arith \<Rightarrow> bool \<Rightarrow> real \<Rightarrow> Euler option \<Rightarrow> Euler option" where
  "NeuralRings_useFrame_Iris A reduceMotion dt grp =
     (if reduceMotion then grp
      else if grp \<noteq> None
      then map_option
             (\<lambda>r. r\<lparr>rotation_z := js_add A (rotation_z r) (js_mul A dt (js_lit A 0.03))\<rparr>) grp
      else grp)"

text \<open>
  \<^verbatim>\<open>ThreeIrisBG.jsx\<close>, \<^verbatim>\<open>IrisLens\<close>; the pointer is the latest sample of the window's
  \<^verbatim>\<open>mousemove\<close> listener:
  \<^verbatim>\<open>useFrame((state, dt) => {
    if (!reduceMotion) {
      irisMat.uniforms.u_time.value += dt;
      if (group.current) group.current.rotation.z += dt * 0.1;
    }
    const p = pointerRef.current;
    const targetX = (p.y || 0) * 0.12;
    const targetY = (p.x || 0) * 0.12;
    if (group.current) {
      group.current.rotation.x += (targetX - group.current.rotation.x) * 0.075;
      group.current.rotation.y += (targetY - group.current.rotation.y) * 0.075;
    }
  });\<close>
  The callback works on the pair of the shader time and the lens group.
\<close>

definition IrisLens_useFrame_BG ::
    "js_arith \<Rightarrow> bool \<Rightarrow> pointer \<Rightarrow> real \<Rightarrow> real \<times> Euler option \<Rightarrow> real \<times> Euler option" where
  "IrisLens_useFrame_BG A reduceMotion pointerRef dt s =
     (let (time1, group1) =
            (if \<not> reduceMotion
             then (js_add A (fst s) dt,
                   map_option
                     (\<lambda>r. r\<lparr>rotation_z := js_add A (rotation_z r) (js_mul A dt (js_lit A 0.1))\<rparr>)
                     (snd s))
             else s);
          p = pointerRef;
          targetX = js_mul A (or_zero (pointer_y p)) (js_lit A 0.12);
          targetY = js_mul A (or_zero (pointer_x p)) (js_lit A 0.12)
      in (time1,
          map_option
            (\<lambda>r. let r1 = r\<lparr>rotation_x :=
                              js_add A (rotation_x r)
                                (js_mul A (js_sub A targetX (rotation_x r)) (js_lit A 0.075))\<rparr>
                 in r1\<lparr>rotation_y :=
                         js_add A (rotation_y r1)
                           (js_mul A (js_sub A targetY (rotation_y r1)) (js_lit A 0.075))\<rparr>)
            group1))"

text \<open>
  \<^verbatim>\<open>ThreeIris.jsx\<close>, \<^verbatim>\<open>IrisLens\<close>; the pointer is the host's \<^verbatim>\<open>state.pointer\<close>:
  \<^verbatim>\<open>useFrame((state, dt) => {
    if (!reduceMotion) {
      irisMat.uniforms.u_time.value += dt;
      if (group.current) group.current.rotation.z += dt * 0.1;
    }
    const { pointer } = state;
    const targetX = (pointer.y || 0) * 0.12;
    const targetY = (pointer.x || 0) * 0.12;
    if (group.current) {
      group.current.rotation.x += (targetX - group.current.rotation.x) * 0.075;
      group.current.rotation.y += (targetY - group.current.rotation.y) * 0.075;
    }
  });\<close>
\<close>

definition IrisLens_useFrame_Iris ::
    "js_arith \<Rightarrow> bool \<Rightarrow> pointer \<Rightarrow> real \<Rightarrow> real \<times> Euler option \<Rightarrow> real \<times> Euler option" where
  "IrisLens_useFrame_Iris A reduceMotion state_pointer dt s =
     (let (time1, group1) =
            (if \<not> reduceMotion
             then (js_add A (fst s) dt,
                   map_option
                     (\<lambda>r. r\<lparr>rotation_z := js_add A (rotation_z r) (js_mul A dt (js_lit A 0.1))\<rparr>)
                     (snd s))
             else s);
          pointer = state_pointer;
          targetX = js_mul A (or_zero (pointer_y pointer)) (js_lit A 0.12);
          targetY = js_mul A (or_zero (pointer_x pointer)) (js_lit A 0.12)
      in (time1,
          map_option
            (\<lambda>r. let r1 = r\<lparr>rotation_x :=
                              js_add A (rotation_x r)
                                (js_mul A (js_sub A targetX (rotation_x r)) (js_lit A 0.075))\<rparr>
                 in r1\<lparr>rotation_y :=
                         js_add A (rotation_y r1)
                           (js_mul A (js_sub A targetY (rotation_y r1)) (js_lit A 0.075))\<rparr>)
            group1))"

text \<open>
  One frame: the host calls every subscribed callback once, with the same \<open>dt\<close>. The
  two callbacks touch disjoint parts of the scene.
\<close>

definition frame_BG :: "js_arith \<Rightarrow> bool \<Rightarrow> pointer \<Rightarrow> real \<Rightarrow> scene \<Rightarrow> scene" where
  "frame_BG A reduceMotion p dt s =
     (let g = NeuralRings_useFrame_BG A reduceMotion dt (rings_group s);
          tl = IrisLens_useFrame_BG A reduceMotion p dt (u_time s, lens_group s)
      in \<lparr>u_time = fst tl, rings_group = g, lens_group = snd tl\<rparr>)"

definition frame_Iris :: "js_arith \<Rightarrow> bool \<Rightarrow> pointer \<Rightarrow> real \<Rightarrow> scene \<Rightarrow> scene" where
  "frame_Iris A reduceMotion p dt s =
     (let g = NeuralRings_useFrame_Iris A reduceMotion dt (rings_group s);
          tl = IrisLens_useFrame_Iris A reduceMotion p dt (u_time s, lens_group s)
      in \<lparr>u_time = fst tl, rings_group = g, lens_group = snd tl\<rparr>)"

text \<open>
  A run of frames: the host calls the frame driver once per frame, each time with the
  pointer sample and the elapsed time of that frame. The frames are given: when the host
  runs one is not the frame driver's affair.
\<close>

primrec run_frames :: "(pointer \<Rightarrow> real \<Rightarrow> scene \<Rightarrow> scene) \<Rightarrow> (pointer \<times> real) list \<Rightarrow> scene \<Rightarrow> scene" where
  "run_frames step [] s = s"
| "run_frames step (i # rest) s = run_frames step rest (step (fst i) (snd i) s)"

text \<open>
  The scene as constructed: \<^verbatim>\<open>u_time: { value: 0 }\<close>, and both groups mounted with the
  host's default rotation \<open>(0, 0, 0)\<close>.
\<close>

definition initial_scene :: scene where
  "initial_scene =
     \<lparr>u_time = 0,
      rings_group = Some \<lparr>rotation_x = 0, rotation_y = 0, rotation_z = 0\<rparr>,
      lens_group = Some \<lparr>rotation_x = 0, rotation_y = 0, rotation_z = 0\<rparr>\<rparr>"

text \<open>
  The pointer-follow update \<^verbatim>\<open>v += (target - v) * 0.075\<close> on its own, as the two callbacks
  apply it to \<^verbatim>\<open>rotation.x\<close> and \<^verbatim>\<open>rotation.y\<close> (\<open>frame_Iris_eq\<close> below).
\<close>

definition smoothing :: "js_arith \<Rightarrow> real \<Rightarrow> real \<Rightarrow> real" where
  "smoothing A target v = js_add A v (js_mul A (js_sub A target v) (js_lit A 0.075))"

section \<open>The ring geometry\<close>

text \<open>
  \<^verbatim>\<open>NeuralRings\<close> builds its rings once, in a \<^verbatim>\<open>useMemo\<close> with no dependencies; the code
  is the same in both components:
  \<^verbatim>\<open>const arr = [];
  const ringCount = 3;
  for (let i = 0; i < ringCount; i++) {
    const R = 0.9 + i * 0.22;
    const pts = [];
    const steps = 180;
    for (let j = 0; j <= steps; j++) {
      const t = (j / steps) * Math.PI * 2;
      pts.push(new THREE.Vector3(Math.cos(t) * R, Math.sin(t) * R, -0.2));
    }
    arr.push({ radius: R, points: pts });
  }
  return arr;\<close>
  The loop counters are integers, which doubles hold exactly; every other operation
  rounds.
\<close>

record Vector3 =
  vec_x :: real
  vec_y :: real
  vec_z :: real

record RingSpec =
  radius :: real
  points :: "Vector3 list"

text \<open>The inner loop, from counter \<open>j\<close> with the points pushed so far.\<close>

function points_loop :: "js_arith \<Rightarrow> real \<Rightarrow> nat \<Rightarrow> nat \<Rightarrow> Vector3 list \<Rightarrow> Vector3 list" where
  "points_loop A R steps j pts =
     (if j \<le> steps
      then (let t = js_mul A (js_mul A (js_div A (real j) (real steps)) (Math_PI A)) 2
            in points_loop A R steps (j + 1)
                 (pts @ [\<lparr>vec_x = js_mul A (Math_cos A t) R,
                          vec_y = js_mul A (Math_sin A t) R,
                          vec_z = - js_lit A 0.2\<rparr>]))
      else pts)"
  by pat_completeness auto
termination
  by (relation "measure (\<lambda>(A, R, steps, j, pts). Suc steps - j)") auto

declare points_loop.simps [simp del]

text \<open>The outer loop, from counter \<open>i\<close> with the rings pushed so far; \<^verbatim>\<open>steps\<close> is 180.\<close>

function rings_loop :: "js_arith \<Rightarrow> nat \<Rightarrow> nat \<Rightarrow> RingSpec list \<Rightarrow> RingSpec list" where
  "rings_loop A ringCount i arr =
     (if i < ringCount
      then (let R = js_add A (js_lit A 0.9) (js_mul A (real i) (js_lit A 0.22));
                pts = points_loop A R 180 0 []
            in rings_loop A ringCount (i + 1) (arr @ [\<lparr>radius = R, points = pts\<rparr>]))
      else arr)"
  by pat_completeness auto
termination
  by (relation "measure (\<lambda>(A, ringCount, i, arr). ringCount - i)") auto

declare rings_loop.simps [simp del]

text \<open>The builder with the ring count of the source, \<^verbatim>\<open>const ringCount = 3\<close>.\<close>

definition rings :: "js_arith \<Rightarrow> RingSpec list" where
  "rings A = rings_loop A 3 0 []"

text \<open>
  The markers of a ring, built when rendering:
  \<^verbatim>\<open>{Array.from({ length: 12 }).map((_, k) => {
    const t = (k / 12) * Math.PI * 2;
    const x = Math.cos(t) * ring.radius;
    const y = Math.sin(t) * ring.radius;
    return <NodeSphere key={k} position={[x, y, -0.2]} color="#7fb3ff" />;
  })}\<close>
\<close>

definition node_position :: "js_arith \<Rightarrow> RingSpec \<Rightarrow> nat \<Rightarrow> real \<times> real \<times> real" where
  "node_position A ring k =
     (let t = js_mul A (js_mul A (js_div A (real k) 12) (Math_PI A)) 2;
          x = js_mul A (Math_cos A t) (radius ring);
          y = js_mul A (Math_sin A t) (radius ring)
      in (x, y, - js_lit A 0.2))"

definition ring_nodes :: "js_arith \<Rightarrow> RingSpec \<Rightarrow> (real \<times> real \<times> real) list" where
  "ring_nodes A ring = map (node_position A ring) [0..<12]"

text \<open>
  What the loops compute, in closed form: the vertex pushed at counter \<open>j\<close>, and the ring
  pushed at counter \<open>i\<close>. That the loops return exactly these is proved below
  (\<open>points_loop_eq\<close>, \<open>rings_loop_eq\<close>).
\<close>

definition ring_vertex :: "js_arith \<Rightarrow> real \<Rightarrow> nat \<Rightarrow> nat \<Rightarrow> Vector3" where
  "ring_vertex A R steps j =
     (let t = js_mul A (js_mul A (js_div A (real j) (real steps)) (Math_PI A)) 2
      in \<lparr>vec_x = js_mul A (Math_cos A t) R,
          vec_y = js_mul A (Math_sin A t) R,
          vec_z = - js_lit A 0.2\<rparr>)"

definition ring_spec :: "js_arith \<Rightarrow> nat \<Rightarrow> RingSpec" where
  "ring_spec A i =
     (let R = js_add A (js_lit A 0.9) (js_mul A (real i) (js_lit A 0.22))
      in \<lparr>radius = R, points = map (ring_vertex A R 180) [0..<Suc 180]\<rparr>)"

section \<open>The reduced-motion query: results\<close>

text \<open>
  C9. When the host cannot answer the reduced-motion query, because there is no
  \<^verbatim>\<open>window\<close> object or because the window has no \<^verbatim>\<open>matchMedia\<close> facility, the hook
  returns \<open>false\<close> (motion not reduced) and does not throw, in both components.
\<close>

theorem useReducedMotion_unanswerable:
  assumes "env = None \<or> (\<exists>w. env = Some w \<and> matchMedia w = None)"
  shows "useReducedMotion_BG env = Inr False \<and> useReducedMotion_Iris env = Inr False"
  using assms
  by (auto simp: useReducedMotion_BG_def useReducedMotion_Iris_def)

theorem useReducedMotion_unanswerable_witness:
  "useReducedMotion_BG None = Inr False \<and> useReducedMotion_Iris None = Inr False
   \<and> useReducedMotion_BG (Some \<lparr>matchMedia = None\<rparr>) = Inr False
   \<and> useReducedMotion_Iris (Some \<lparr>matchMedia = None\<rparr>) = Inr False"
  using useReducedMotion_unanswerable [of None]
    useReducedMotion_unanswerable [of "Some \<lparr>matchMedia = None\<rparr>"]
  by simp

section \<open>Arithmetic: results\<close>

subsection \<open>Exact arithmetic\<close>

lemma exact_ops [simp]:
  "js_lit exact_arith x = x"
  "js_add exact_arith x y = x + y"
  "js_sub exact_arith x y = x - y"
  "js_mul exact_arith x y = x * y"
  "js_div exact_arith x y = x / y"
  by (simp_all add: js_lit_def js_add_def js_sub_def js_mul_def js_div_def exact_arith_def)

lemma exact_Math [simp]:
  "Math_PI exact_arith = pi" "Math_cos exact_arith = cos" "Math_sin exact_arith = sin"
  by (simp_all add: exact_arith_def)

lemma round_to_nearest_exact: "round_to_nearest exact_arith"
  by (simp add: round_to_nearest_def exact_arith_def)

lemma accurate_exact: "accurate exact_arith"
  by (simp add: accurate_def exact_arith_def)

subsection \<open>Round-to-nearest\<close>

text \<open>
  Such a rounding leaves doubles alone, is monotone, and at most doubles a value that is
  not negative.
\<close>

lemma rnd_nearest: "round_to_nearest A \<Longrightarrow> \<bar>rnd A x - x\<bar> \<le> \<bar>rnd A y - x\<bar>"
  by (simp add: round_to_nearest_def)

lemma rnd_zero: "round_to_nearest A \<Longrightarrow> rnd A 0 = 0"
  by (simp add: round_to_nearest_def)

lemma rnd_idem: "round_to_nearest A \<Longrightarrow> rnd A (rnd A x) = rnd A x"
  using rnd_nearest [of A "rnd A x" x] by simp

lemma rnd_mono:
  assumes A: "round_to_nearest A" and le: "x \<le> y"
  shows "rnd A x \<le> rnd A y"
proof (rule ccontr)
  assume "\<not> rnd A x \<le> rnd A y"
  then have less: "rnd A y < rnd A x" by simp
  from rnd_nearest [OF A, of x y] less have "rnd A x + rnd A y \<le> 2 * x"
    by linarith
  moreover from rnd_nearest [OF A, of y x] less have "2 * y \<le> rnd A x + rnd A y"
    by linarith
  ultimately have "x = y"
    using le by linarith
  with less show False by simp
qed

lemma rnd_nonneg: "round_to_nearest A \<Longrightarrow> 0 \<le> x \<Longrightarrow> 0 \<le> rnd A x"
  using rnd_mono [of A 0 x] by (simp add: rnd_zero)

lemma rnd_le_double: "round_to_nearest A \<Longrightarrow> 0 \<le> x \<Longrightarrow> rnd A x \<le> 2 * x"
  using rnd_nearest [of A x 0] by (simp add: rnd_zero)

subsection \<open>Error bounds\<close>

text \<open>
  An operation on approximate operands is approximate: the error of the exact operation on
  them, and the rounding of its result on top.
\<close>

lemma rnd_near:
  assumes "accurate A" and "\<bar>x - a\<bar> \<le> d" and "\<bar>a\<bar> + d \<le> 16"
  shows "\<bar>rnd A x - a\<bar> \<le> d + 1 / 1000000000"
proof -
  from assms(2,3) have "\<bar>x\<bar> \<le> 16" by linarith
  with assms(1) have "\<bar>rnd A x - x\<bar> \<le> 1 / 1000000000"
    by (simp add: accurate_def)
  with assms(2) show ?thesis by linarith
qed

lemma product_near:
  fixes x y a b :: real
  assumes "\<bar>x - a\<bar> \<le> dx" and "\<bar>y - b\<bar> \<le> dy" and "\<bar>x\<bar> \<le> X" and "\<bar>b\<bar> \<le> B"
  shows "\<bar>x * y - a * b\<bar> \<le> X * dy + B * dx"
proof -
  have "x * y - a * b = x * (y - b) + b * (x - a)"
    by (simp add: algebra_simps)
  then have "\<bar>x * y - a * b\<bar> \<le> \<bar>x\<bar> * \<bar>y - b\<bar> + \<bar>b\<bar> * \<bar>x - a\<bar>"
    by (simp add: abs_mult [symmetric]) 
  also have "\<dots> \<le> X * dy + B * dx"
    using assms by (intro add_mono mult_mono) (auto intro: order_trans [OF abs_ge_zero])
  finally show ?thesis .
qed

lemma lit_near:
  assumes "accurate A" and "\<bar>c\<bar> \<le> 16"
  shows "\<bar>js_lit A c - c\<bar> \<le> 1 / 1000000000"
  using rnd_near [OF assms(1), of c c 0] assms(2) by (simp add: js_lit_def)

lemma add_near:
  assumes "accurate A" and "\<bar>x - a\<bar> \<le> dx" and "\<bar>y - b\<bar> \<le> dy" and "\<bar>a + b\<bar> + (dx + dy) \<le> 16"
  shows "\<bar>js_add A x y - (a + b)\<bar> \<le> dx + dy + 1 / 1000000000"
proof -
  from assms(2,3) have "\<bar>(x + y) - (a + b)\<bar> \<le> dx + dy" by linarith
  from rnd_near [OF assms(1) this assms(4)] show ?thesis
    by (simp add: js_add_def)
qed

lemma sub_near:
  assumes "accurate A" and "\<bar>x - a\<bar> \<le> dx" and "\<bar>y - b\<bar> \<le> dy" and "\<bar>a - b\<bar> + (dx + dy) \<le> 16"
  shows "\<bar>js_sub A x y - (a - b)\<bar> \<le> dx + dy + 1 / 1000000000"
proof -
  from assms(2,3) have "\<bar>(x - y) - (a - b)\<bar> \<le> dx + dy" by linarith
  from rnd_near [OF assms(1) this assms(4)] show ?thesis
    by (simp add: js_sub_def)
qed

lemma mul_near:
  assumes "accurate A" and "\<bar>x - a\<bar> \<le> dx" and "\<bar>y - b\<bar> \<le> dy" and "\<bar>x\<bar> \<le> X" and "\<bar>b\<bar> \<le> B"
    and "\<bar>a * b\<bar> + (X * dy + B * dx) \<le> 16"
  shows "\<bar>js_mul A x y - a * b\<bar> \<le> X * dy + B * dx + 1 / 1000000000"
proof -
  from product_near [OF assms(2,3,4,5)] have "\<bar>x * y - a * b\<bar> \<le> X * dy + B * dx" .
  from rnd_near [OF assms(1) this assms(6)] show ?thesis
    by (simp add: js_mul_def)
qed

lemma cos_lipschitz: "\<bar>cos a - cos b\<bar> \<le> \<bar>a - b\<bar>" for a b :: real
proof -
  have "\<bar>cos a - cos b\<bar> = 2 * \<bar>sin ((a + b) / 2)\<bar> * \<bar>sin ((b - a) / 2)\<bar>"
    by (simp add: cos_diff_cos abs_mult)
  also have "\<dots> \<le> 2 * 1 * \<bar>(b - a) / 2\<bar>"
    by (intro mult_mono abs_sin_x_le_abs_x) simp_all
  finally show ?thesis by simp
qed

lemma sin_lipschitz: "\<bar>sin a - sin b\<bar> \<le> \<bar>a - b\<bar>" for a b :: real
proof -
  have "\<bar>sin a - sin b\<bar> = 2 * \<bar>sin ((a - b) / 2)\<bar> * \<bar>cos ((a + b) / 2)\<bar>"
    by (simp add: sin_diff_sin abs_mult)
  also have "\<dots> \<le> 2 * \<bar>(a - b) / 2\<bar> * 1"
    by (intro mult_mono abs_sin_x_le_abs_x) simp_all
  finally show ?thesis by simp
qed

subsection \<open>Doubles\<close>

text \<open>
  Every real has a nearest binary64 number: the candidates no farther from it than 0 are
  multiples of \<open>2^-1074\<close> in a bounded interval, finitely many. So rounding to binary64 is
  round-to-nearest, and it is accurate: within \<open>[-16, 16]\<close> the multiples of \<open>2^-30\<close> are
  already binary64 numbers.
\<close>

lemma zero_binary64: "0 \<in> binary64"
proof -
  have "(0::real) = real_of_int 0 * 2 ^ 0 / 2 ^ 1074" by simp
  moreover have "\<bar>0::int\<bar> < 2 ^ 53" by simp
  ultimately show ?thesis
    unfolding binary64_def by blast
qed

lemma binary64_multiple:
  assumes "g \<in> binary64"
  shows "\<exists>n::int. g = real_of_int n / 2 ^ 1074"
proof -
  from assms obtain m :: int and k :: nat where "g = real_of_int m * 2 ^ k / 2 ^ 1074"
    unfolding binary64_def by blast
  then have "g = real_of_int (m * 2 ^ k) / 2 ^ 1074"
    by simp
  then show ?thesis ..
qed

lemma finite_binary64_bounded: "finite {g \<in> binary64. \<bar>g\<bar> \<le> B}"
proof -
  define N :: int where "N = \<lceil>B * 2 ^ 1074\<rceil>"
  have "{g \<in> binary64. \<bar>g\<bar> \<le> B} \<subseteq> (\<lambda>n. real_of_int n / 2 ^ 1074) ` {- N..N}"
  proof
    fix g assume "g \<in> {g \<in> binary64. \<bar>g\<bar> \<le> B}"
    then have g: "g \<in> binary64" and B: "\<bar>g\<bar> \<le> B" by simp_all
    from binary64_multiple [OF g] obtain n :: int where n: "g = real_of_int n / 2 ^ 1074"
      by blast
    with B have "\<bar>real_of_int n\<bar> / 2 ^ 1074 \<le> B"
      by simp
    then have "\<bar>real_of_int n\<bar> \<le> B * 2 ^ 1074"
      by (simp add: pos_divide_le_eq)
    then have "real_of_int \<bar>n\<bar> \<le> real_of_int N"
      unfolding N_def by linarith
    then have "\<bar>n\<bar> \<le> N"
      by (simp only: of_int_le_iff)
    then have "n \<in> {- N..N}"
      by auto
    with n show "g \<in> (\<lambda>n. real_of_int n / 2 ^ 1074) ` {- N..N}"
      by blast
  qed
  then show ?thesis
    by (rule finite_subset) simp
qed

lemma nearest_exists: "\<exists>f. f \<in> binary64 \<and> (\<forall>g\<in>binary64. \<bar>f - x\<bar> \<le> \<bar>g - x\<bar>)"
proof -
  define G where "G = {g \<in> binary64. \<bar>g - x\<bar> \<le> \<bar>x\<bar>}"
  define D where "D = (\<lambda>g. \<bar>g - x\<bar>) ` G"
  have "G \<subseteq> {g \<in> binary64. \<bar>g\<bar> \<le> 2 * \<bar>x\<bar>}"
    unfolding G_def by auto
  then have "finite G"
    by (rule finite_subset) (rule finite_binary64_bounded)
  then have fin: "finite D"
    unfolding D_def by simp
  have zero: "0 \<in> G"
    unfolding G_def using zero_binary64 by simp
  then have ne: "D \<noteq> {}"
    unfolding D_def by blast
  from Min_in [OF fin ne] obtain f where f: "f \<in> G" and d: "\<bar>f - x\<bar> = Min D"
    unfolding D_def by auto
  have least: "\<bar>f - x\<bar> \<le> \<bar>g - x\<bar>" if "g \<in> G" for g
    unfolding d using that by (intro Min_le [OF fin]) (simp add: D_def)
  from least [OF zero] have fx: "\<bar>f - x\<bar> \<le> \<bar>x\<bar>"
    by simp
  have "\<bar>f - x\<bar> \<le> \<bar>g - x\<bar>" if g: "g \<in> binary64" for g
  proof (cases "g \<in> G")
    case True
    then show ?thesis by (rule least)
  next
    case False
    with g have "\<bar>x\<bar> < \<bar>g - x\<bar>"
      unfolding G_def by simp
    with fx show ?thesis by simp
  qed
  moreover from f have "f \<in> binary64"
    unfolding G_def by simp
  ultimately show ?thesis by blast
qed

lemma nearest_binary64:
  "nearest_binary64 x \<in> binary64"
  "g \<in> binary64 \<Longrightarrow> \<bar>nearest_binary64 x - x\<bar> \<le> \<bar>g - x\<bar>"
proof -
  from someI_ex [OF nearest_exists [of x]]
  have "nearest_binary64 x \<in> binary64 \<and> (\<forall>g\<in>binary64. \<bar>nearest_binary64 x - x\<bar> \<le> \<bar>g - x\<bar>)"
    unfolding nearest_binary64_def .
  then show "nearest_binary64 x \<in> binary64"
    and "g \<in> binary64 \<Longrightarrow> \<bar>nearest_binary64 x - x\<bar> \<le> \<bar>g - x\<bar>"
    by blast+
qed

lemma round_to_nearest_binary64: "round_to_nearest binary64_arith"
proof -
  have "\<bar>nearest_binary64 0 - 0\<bar> \<le> \<bar>0 - 0\<bar>"
    by (rule nearest_binary64(2) [OF zero_binary64])
  then have "nearest_binary64 0 = 0"
    by simp
  moreover have "\<bar>nearest_binary64 x - x\<bar> \<le> \<bar>nearest_binary64 y - x\<bar>" for x y
    by (rule nearest_binary64(2)) (rule nearest_binary64(1))
  ultimately show ?thesis
    by (simp add: round_to_nearest_def binary64_arith_def)
qed

lemma binary64_near:
  assumes "\<bar>x\<bar> \<le> 16"
  shows "\<bar>nearest_binary64 x - x\<bar> \<le> 1 / 1000000000"
proof -
  define m where "m = round (x * 2 ^ 30)"
  define g where "g = real_of_int m * 2 ^ 1044 / 2 ^ 1074"
  have split: "(2::real) ^ 1074 = 2 ^ 1044 * 2 ^ 30"
    by (simp only: power_add [symmetric]) simp
  have g30: "g = real_of_int m / 2 ^ 30"
    unfolding g_def split by simp
  have "\<bar>real_of_int m - x * 2 ^ 30\<bar> \<le> 1 / 2"
    unfolding m_def by (rule of_int_round_abs_le)
  then have near: "\<bar>g - x\<bar> \<le> 1 / 2 / 2 ^ 30"
    unfolding g30 by (simp add: field_simps)
  have "\<bar>real_of_int m\<bar> \<le> \<bar>x * 2 ^ 30\<bar> + 1 / 2"
    using \<open>\<bar>real_of_int m - x * 2 ^ 30\<bar> \<le> 1 / 2\<close> by linarith
  also have "\<bar>x * 2 ^ 30\<bar> = \<bar>x\<bar> * 2 ^ 30"
    by (simp add: abs_mult)
  also have "\<bar>x\<bar> * 2 ^ 30 + 1 / 2 \<le> 16 * 2 ^ 30 + 1 / 2"
    using assms by simp
  also have "\<dots> < 2 ^ 53"
    by simp
  finally have "real_of_int \<bar>m\<bar> < real_of_int (2 ^ 53)"
    by simp
  then have "\<bar>m\<bar> < 2 ^ 53"
    by (simp only: of_int_less_iff)
  then have "g \<in> binary64"
    unfolding binary64_def g_def by blast
  from nearest_binary64(2) [OF this, of x] near
  have "\<bar>nearest_binary64 x - x\<bar> \<le> 1 / 2 / 2 ^ 30"
    by linarith
  also have "\<dots> \<le> (1 / 1000000000 :: real)"
    by simp
  finally show ?thesis .
qed

lemma accurate_binary64: "accurate binary64_arith"
proof -
  have "\<bar>pi\<bar> \<le> 16"
    using pi_less_4 pi_gt_zero by simp
  moreover have "\<bar>cos t\<bar> \<le> 16" "\<bar>sin t\<bar> \<le> 16" for t :: real
    using abs_cos_le_one [of t] abs_sin_le_one [of t] by linarith+
  ultimately show ?thesis
    unfolding accurate_def binary64_arith_def js_arith.select_convs
    by (blast intro: binary64_near)
qed

section \<open>The frame driver: results\<close>

subsection \<open>What one frame does\<close>

lemma or_zero_Some [simp]: "or_zero (Some v) = v"
  by (simp add: or_zero_def)

lemma NeuralRings_useFrame_agree:
  "NeuralRings_useFrame_BG A rm dt g = NeuralRings_useFrame_Iris A rm dt g"
  by (simp add: NeuralRings_useFrame_BG_def NeuralRings_useFrame_Iris_def)

lemma IrisLens_useFrame_agree:
  "IrisLens_useFrame_BG A rm p dt s = IrisLens_useFrame_Iris A rm p dt s"
  by (simp add: IrisLens_useFrame_BG_def IrisLens_useFrame_Iris_def)

lemma frame_agree: "frame_BG A rm p dt s = frame_Iris A rm p dt s"
  by (simp add: frame_BG_def frame_Iris_def NeuralRings_useFrame_agree IrisLens_useFrame_agree)

lemma frame_BG_eq: "frame_BG A rm = frame_Iris A rm"
  by (intro ext) (rule frame_agree)

lemma frame_Iris_u_time:
  "u_time (frame_Iris A rm p dt s) = (if rm then u_time s else js_add A (u_time s) dt)"
  by (simp add: frame_Iris_def IrisLens_useFrame_Iris_def Let_def split: prod.splits)

lemma frame_Iris_rings:
  "rings_group (frame_Iris A rm p dt s) =
     (if rm then rings_group s
      else map_option (\<lambda>r. r\<lparr>rotation_z := js_add A (rotation_z r) (js_mul A dt (js_lit A 0.03))\<rparr>)
             (rings_group s))"
  by (cases "rings_group s") (simp_all add: frame_Iris_def NeuralRings_useFrame_Iris_def Let_def)

lemma frame_Iris_lens_z:
  "map_option rotation_z (lens_group (frame_Iris A rm p dt s)) =
     (if rm then map_option rotation_z (lens_group s)
      else map_option (\<lambda>r. js_add A (rotation_z r) (js_mul A dt (js_lit A 0.1))) (lens_group s))"
  by (cases "lens_group s")
     (simp_all add: frame_Iris_def IrisLens_useFrame_Iris_def Let_def split: prod.splits)

lemma frame_Iris_lens_x:
  "map_option rotation_x (lens_group (frame_Iris A rm p dt s)) =
     map_option (\<lambda>r. js_add A (rotation_x r)
        (js_mul A (js_sub A (js_mul A (or_zero (pointer_y p)) (js_lit A 0.12)) (rotation_x r))
           (js_lit A 0.075))) (lens_group s)"
  by (cases "lens_group s")
     (simp_all add: frame_Iris_def IrisLens_useFrame_Iris_def Let_def split: prod.splits)


lemma frame_Iris_eq:
  "frame_Iris A rm p dt s =
    \<lparr>u_time = (if rm then u_time s else js_add A (u_time s) dt),
     rings_group = (if rm then rings_group s
        else map_option
          (\<lambda>r. r\<lparr>rotation_z := js_add A (rotation_z r) (js_mul A dt (js_lit A 0.03))\<rparr>)
          (rings_group s)),
     lens_group = map_option
        (\<lambda>r. \<lparr>rotation_x =
                smoothing A (js_mul A (or_zero (pointer_y p)) (js_lit A 0.12)) (rotation_x r),
              rotation_y =
                smoothing A (js_mul A (or_zero (pointer_x p)) (js_lit A 0.12)) (rotation_y r),
              rotation_z = (if rm then rotation_z r
                else js_add A (rotation_z r) (js_mul A dt (js_lit A 0.1)))\<rparr>)
        (lens_group s)\<rparr>"
  by (cases "rings_group s"; cases "lens_group s")
     (simp_all add: frame_Iris_def NeuralRings_useFrame_Iris_def IrisLens_useFrame_Iris_def Let_def
        smoothing_def split: prod.splits)

lemma frame_Iris_exact:
  "frame_Iris exact_arith rm p dt s =
    \<lparr>u_time = (if rm then u_time s else u_time s + dt),
     rings_group = (if rm then rings_group s
        else map_option (\<lambda>r. r\<lparr>rotation_z := rotation_z r + dt * 0.03\<rparr>) (rings_group s)),
     lens_group = map_option
        (\<lambda>r. \<lparr>rotation_x = rotation_x r + (or_zero (pointer_y p) * 0.12 - rotation_x r) * 0.075,
              rotation_y = rotation_y r + (or_zero (pointer_x p) * 0.12 - rotation_y r) * 0.075,
              rotation_z = (if rm then rotation_z r else rotation_z r + dt * 0.1)\<rparr>)
        (lens_group s)\<rparr>"
  by (cases "rings_group s"; cases "lens_group s")
     (simp_all add: frame_Iris_def NeuralRings_useFrame_Iris_def IrisLens_useFrame_Iris_def Let_def
        split: prod.splits)

text \<open>
  C3. With motion enabled (reduced-motion preference false), one invocation of the frame
  driver with elapsed time \<open>dt\<close> performs \<^verbatim>\<open>u_time += dt\<close> on the shader's time,
  \<^verbatim>\<open>rotation.z += dt * 0.03\<close> on the ring group (leaving the rest of its rotation alone) and
  \<^verbatim>\<open>rotation.z += dt * 0.1\<close> on the lens group, in both components, whatever the rounding;
  a group that is not mounted stays unmounted. In exact arithmetic the three increase by
  exactly \<open>dt\<close>, \<open>dt * 0.03\<close> and \<open>dt * 0.1\<close>.
\<close>

theorem frame_motion_enabled:
  assumes "\<not> reduceMotion"
  shows "u_time (frame_BG A reduceMotion p dt s) = js_add A (u_time s) dt
       \<and> rings_group (frame_BG A reduceMotion p dt s) =
           map_option (\<lambda>r. r\<lparr>rotation_z := js_add A (rotation_z r) (js_mul A dt (js_lit A 0.03))\<rparr>)
             (rings_group s)
       \<and> map_option rotation_z (lens_group (frame_BG A reduceMotion p dt s)) =
           map_option (\<lambda>r. js_add A (rotation_z r) (js_mul A dt (js_lit A 0.1))) (lens_group s)
       \<and> frame_Iris A reduceMotion p dt s = frame_BG A reduceMotion p dt s
       \<and> u_time (frame_BG exact_arith reduceMotion p dt s) = u_time s + dt
       \<and> rings_group (frame_BG exact_arith reduceMotion p dt s) =
           map_option (\<lambda>r. r\<lparr>rotation_z := rotation_z r + dt * 0.03\<rparr>) (rings_group s)
       \<and> map_option rotation_z (lens_group (frame_BG exact_arith reduceMotion p dt s)) =
           map_option (\<lambda>r. rotation_z r + dt * 0.1) (lens_group s)"
  using assms
  by (simp add: frame_agree frame_Iris_u_time frame_Iris_rings frame_Iris_lens_z)

theorem frame_motion_enabled_witness:
  "u_time (frame_BG exact_arith False \<lparr>pointer_x = Some 0, pointer_y = Some 0\<rparr> 0.016 initial_scene) = 0.016
   \<and> map_option rotation_z (rings_group (frame_BG exact_arith False \<lparr>pointer_x = Some 0, pointer_y = Some 0\<rparr> 0.016 initial_scene)) = Some 0.00048
   \<and> map_option rotation_z (lens_group (frame_BG exact_arith False \<lparr>pointer_x = Some 0, pointer_y = Some 0\<rparr> 0.016 initial_scene)) = Some 0.0016"
  using frame_motion_enabled [where reduceMotion = False and A = exact_arith
      and p = "\<lparr>pointer_x = Some 0, pointer_y = Some 0\<rparr>" and dt = "0.016" and s = initial_scene]
  by (simp add: initial_scene_def)

subsection \<open>Reduced motion\<close>

lemma run_frames_reduced:
  "u_time (run_frames (frame_Iris A True) inputs s) = u_time s
   \<and> rings_group (run_frames (frame_Iris A True) inputs s) = rings_group s
   \<and> map_option rotation_z (lens_group (run_frames (frame_Iris A True) inputs s)) =
       map_option rotation_z (lens_group s)"
proof (induction inputs arbitrary: s)
  case Nil
  show ?case by simp
next
  case (Cons i rest)
  show ?case
    by (simp add: Cons.IH frame_Iris_u_time frame_Iris_rings frame_Iris_lens_z)
qed

text \<open>
  C4. With the reduced-motion preference set, any number of invocations of the frame
  driver, with any elapsed times and pointer samples, leaves the shader's time, the ring
  group's z rotation and the lens group's z rotation as they were, in both components and
  whatever the rounding of the arithmetic.
\<close>

theorem reduced_motion_frozen:
  "u_time (run_frames (frame_BG A True) inputs s) = u_time s
   \<and> map_option rotation_z (rings_group (run_frames (frame_BG A True) inputs s)) =
       map_option rotation_z (rings_group s)
   \<and> map_option rotation_z (lens_group (run_frames (frame_BG A True) inputs s)) =
       map_option rotation_z (lens_group s)
   \<and> u_time (run_frames (frame_Iris A True) inputs s) = u_time s
   \<and> map_option rotation_z (rings_group (run_frames (frame_Iris A True) inputs s)) =
       map_option rotation_z (rings_group s)
   \<and> map_option rotation_z (lens_group (run_frames (frame_Iris A True) inputs s)) =
       map_option rotation_z (lens_group s)"
  by (simp add: frame_BG_eq run_frames_reduced)

subsection \<open>Pointer-follow smoothing\<close>

text \<open>
  One update from a double \<open>v\<close> between 0 and the target \<open>T\<close> gives a double between \<open>v\<close> and
  \<open>T\<close>: the step \<open>d\<close> that is added is the rounding of the rounding of \<open>T - v\<close> times the
  rounding of 0.075, which is at least 0 and at most \<open>2 * (2 * (T - v) * (2 * 0.075))\<close>,
  less than \<open>T - v\<close>.
\<close>

lemma smoothing_step:
  assumes A: "round_to_nearest A"
    and T: "rnd A T = T"
    and v: "rnd A v = v" "0 \<le> v" "v \<le> T"
  shows "rnd A (smoothing A T v) = smoothing A T v"
    and "v \<le> smoothing A T v"
    and "smoothing A T v \<le> T"
proof -
  define e where "e = rnd A (T - v)"
  define c where "c = rnd A 0.075"
  define d where "d = rnd A (e * c)"
  have s: "smoothing A T v = rnd A (v + d)"
    by (simp add: smoothing_def js_add_def js_mul_def js_sub_def js_lit_def e_def c_def d_def)
  from v have gap: "0 \<le> T - v"
    by simp
  have e: "0 \<le> e" "e \<le> 2 * (T - v)"
    unfolding e_def using rnd_nonneg [OF A gap] rnd_le_double [OF A gap] by simp_all
  have c: "0 \<le> c" "c \<le> 0.15"
    unfolding c_def using rnd_nonneg [OF A, of "0.075"] rnd_le_double [OF A, of "0.075"] by simp_all
  have ec0: "0 \<le> e * c"
    using e c by simp
  have "e * c \<le> (2 * (T - v)) * 0.15"
    using e c gap by (intro mult_mono) simp_all
  then have ec: "e * c \<le> 0.3 * (T - v)"
    by simp
  have d: "0 \<le> d" "d \<le> 0.6 * (T - v)"
    unfolding d_def using rnd_nonneg [OF A ec0] rnd_le_double [OF A ec0] ec by simp_all
  show "rnd A (smoothing A T v) = smoothing A T v"
    unfolding s by (rule rnd_idem [OF A])
  have "rnd A v \<le> rnd A (v + d)"
    using d by (intro rnd_mono [OF A]) simp
  then show "v \<le> smoothing A T v"
    by (simp add: s v)
  have "v + d \<le> T"
    using d gap by simp
  then have "rnd A (v + d) \<le> rnd A T"
    by (rule rnd_mono [OF A])
  then show "smoothing A T v \<le> T"
    by (simp add: s T)
qed

lemma smoothing_iterate:
  assumes A: "round_to_nearest A"
    and T: "rnd A T = T" "0 \<le> T"
  shows "rnd A ((smoothing A T ^^ n) 0) = (smoothing A T ^^ n) 0
       \<and> 0 \<le> (smoothing A T ^^ n) 0
       \<and> (smoothing A T ^^ n) 0 \<le> T
       \<and> (smoothing A T ^^ n) 0 \<le> (smoothing A T ^^ Suc n) 0"
proof (induction n)
  case 0
  have z: "rnd A 0 = 0" using A by (rule rnd_zero)
  from smoothing_step [OF A T(1) z _ T(2)] z T show ?case
    by simp
next
  case (Suc n)
  let ?v = "(smoothing A T ^^ n) 0"
  from Suc have v: "rnd A ?v = ?v" "0 \<le> ?v" "?v \<le> T"
    by simp_all
  note s1 = smoothing_step [OF A T(1) v]
  have v1: "rnd A (smoothing A T ?v) = smoothing A T ?v" "0 \<le> smoothing A T ?v"
      "smoothing A T ?v \<le> T"
    using s1 v by simp_all
  from smoothing_step [OF A T(1) v1] v1 show ?case
    by simp
qed

lemma run_frames_smoothing:
  "map_option rotation_x (lens_group (run_frames (frame_Iris A rm) (replicate n (p, dt)) s)) =
   map_option
     (\<lambda>r. (smoothing A (js_mul A (or_zero (pointer_y p)) (js_lit A 0.12)) ^^ n) (rotation_x r))
     (lens_group s)"
proof (induction n arbitrary: s)
  case 0
  show ?case by (simp add: option.map_ident)
next
  case (Suc n)
  let ?T = "js_mul A (or_zero (pointer_y p)) (js_lit A 0.12)"
  let ?s1 = "frame_Iris A rm p dt s"
  have step: "map_option rotation_x (lens_group ?s1) =
      map_option (\<lambda>r. smoothing A ?T (rotation_x r)) (lens_group s)"
    by (simp add: frame_Iris_lens_x smoothing_def)
  show ?case
  proof (cases "lens_group s")
    case None
    with step have "lens_group ?s1 = None" by simp
    with None show ?thesis by (simp add: Suc.IH)
  next
    case (Some r)
    with step obtain r1 where r1: "lens_group ?s1 = Some r1"
      and x1: "rotation_x r1 = smoothing A ?T (rotation_x r)"
      by auto
    show ?thesis
      by (simp add: Suc.IH r1 x1 Some funpow_swap1)
  qed
qed

text \<open>In exact arithmetic the iteration has a closed form, a geometric approach to the target.\<close>

lemma run_frames_lens_x:
  "map_option rotation_x
     (lens_group (run_frames (frame_Iris exact_arith rm) (map (Pair p) dts) s)) =
   map_option
     (\<lambda>r. or_zero (pointer_y p) * 0.12
          + (rotation_x r - or_zero (pointer_y p) * 0.12) * (1 - 0.075) ^ length dts)
     (lens_group s)"
proof (induction dts arbitrary: s)
  case Nil
  show ?case by (simp add: option.map_ident)
next
  case (Cons dt rest)
  let ?s1 = "frame_Iris exact_arith rm p dt s"
  have step: "map_option rotation_x (lens_group ?s1) =
      map_option (\<lambda>r. rotation_x r + (or_zero (pointer_y p) * 0.12 - rotation_x r) * 0.075)
        (lens_group s)"
    by (simp add: frame_Iris_lens_x)
  show ?case
  proof (cases "lens_group s")
    case None
    with step have "lens_group ?s1 = None" by simp
    with None show ?thesis by (simp add: Cons.IH)
  next
    case (Some r)
    with step obtain r1 where r1: "lens_group ?s1 = Some r1"
      and x1: "rotation_x r1 = rotation_x r + (or_zero (pointer_y p) * 0.12 - rotation_x r) * 0.075"
      by auto
    have "rotation_x r1 - or_zero (pointer_y p) * 0.12 =
        (rotation_x r - or_zero (pointer_y p) * 0.12) * (1 - 0.075)"
      unfolding x1 by (simp add: algebra_simps)
    then show ?thesis
      by (simp add: Cons.IH r1 Some)
  qed
qed

lemma smoothing_limit: "(\<lambda>n. (12/100::real) + (0 - 12/100) * (1 - 75/1000) ^ n) \<longlonglongrightarrow> 12/100"
proof -
  have "(\<lambda>n. ((1 - 75/1000)::real) ^ n) \<longlonglongrightarrow> 0"
    by (rule LIMSEQ_realpow_zero) simp_all
  from tendsto_add [OF tendsto_const tendsto_mult [OF tendsto_const this]]
  have "(\<lambda>n. (12/100::real) + (0 - 12/100) * (1 - 75/1000) ^ n) \<longlonglongrightarrow> 12/100 + (0 - 12/100) * 0" .
  then show ?thesis by simp
qed

text \<open>
  Rounding does not accumulate: one step shrinks the distance to the exact iterate by the
  factor 0.925 before it adds its own rounding errors, so that every iterate stays within
  54 rounding errors of the exact one.
\<close>

lemma smoothing_contracts:
  assumes A: "accurate A"
    and T: "\<bar>T - T0\<bar> \<le> 2 / 1000000000" "\<bar>T0\<bar> \<le> 1 / 4"
    and v: "\<bar>v - v0\<bar> \<le> d" "\<bar>v0\<bar> \<le> 1 / 4" "d \<le> 1 / 1000"
  shows "\<bar>smoothing A T v - (v0 + (T0 - v0) * (75 / 1000))\<bar> \<le> d * (925 / 1000) + 4 / 1000000000"
proof -
  define g where "g = rnd A (T - v)"
  define c where "c = rnd A (75 / 1000)"
  define p where "p = g * c"
  define h where "h = rnd A p"
  have s: "smoothing A T v = rnd A (v + h)"
    by (simp add: smoothing_def js_add_def js_mul_def js_sub_def js_lit_def g_def c_def p_def h_def)
  from T v have Tv: "\<bar>T - v\<bar> \<le> 1 / 2 + 2 / 1000"
    by linarith
  have g: "\<bar>g - (T - v)\<bar> \<le> 1 / 1000000000"
    unfolding g_def using rnd_near [OF A, of "T - v" "T - v" 0] Tv by simp
  with Tv have g1: "\<bar>g\<bar> \<le> 1"
    by linarith
  have c: "\<bar>c - 75 / 1000\<bar> \<le> 1 / 1000000000"
    unfolding c_def using rnd_near [OF A, of "75 / 1000" "75 / 1000" 0] by simp
  have "p - g * (75 / 1000) = g * (c - 75 / 1000)"
    by (simp add: p_def algebra_simps)
  then have "\<bar>p - g * (75 / 1000)\<bar> = \<bar>g\<bar> * \<bar>c - 75 / 1000\<bar>"
    by (simp add: abs_mult)
  also have "\<dots> \<le> 1 * (1 / 1000000000)"
    using g1 c by (intro mult_mono) simp_all
  finally have p: "\<bar>p - g * (75 / 1000)\<bar> \<le> 1 / 1000000000"
    by simp
  with g1 have p1: "\<bar>p\<bar> \<le> 1"
    by linarith
  have h: "\<bar>h - p\<bar> \<le> 1 / 1000000000"
    unfolding h_def using rnd_near [OF A, of p p 0] p1 by simp
  from v h p1 have vh: "\<bar>v + h\<bar> \<le> 16"
    by linarith
  have r: "\<bar>rnd A (v + h) - (v + h)\<bar> \<le> 1 / 1000000000"
    using rnd_near [OF A, of "v + h" "v + h" 0] vh by simp
  from g T(1) v(1) p h r show ?thesis
    unfolding s by argo
qed

lemma smoothing_tracks:
  assumes A: "accurate A" and T: "\<bar>T - 12 / 100\<bar> \<le> 2 / 1000000000"
  shows "\<bar>(smoothing A T ^^ n) 0 - (12 / 100 + (0 - 12 / 100) * (1 - 75 / 1000) ^ n)\<bar>
           \<le> 54 / 1000000000"
proof (induction n)
  case 0
  show ?case by simp
next
  case (Suc n)
  define y where "y = 12 / 100 + (0 - 12 / 100) * (1 - 75 / 1000 :: real) ^ n"
  have pw: "0 \<le> (1 - 75 / 1000 :: real) ^ n" "(1 - 75 / 1000 :: real) ^ n \<le> 1"
    by (simp_all add: power_le_one)
  then have y: "\<bar>y\<bar> \<le> 1 / 4"
    unfolding y_def by argo
  have T0: "\<bar>12 / 100 :: real\<bar> \<le> 1 / 4" by simp
  have d: "(54 / 1000000000 :: real) \<le> 1 / 1000" by simp
  from smoothing_contracts [OF A T T0 Suc.IH [folded y_def] y d]
  have "\<bar>smoothing A T ((smoothing A T ^^ n) 0) - (y + (12 / 100 - y) * (75 / 1000))\<bar>
      \<le> 54 / 1000000000"
    by simp
  moreover have "y + (12 / 100 - y) * (75 / 1000) = 12 / 100 + (0 - 12 / 100) * (1 - 75 / 1000) ^ Suc n"
    by (simp add: y_def algebra_simps)
  ultimately show ?case
    by simp
qed

text \<open>
  C5. With the lens group's x rotation starting at 0 and the pointer sample fixed at
  \<open>y = 1\<close>, the x rotation after \<open>n\<close> invocations of the frame driver never decreases from
  one invocation to the next and never exceeds the target, the Number 0.12; this holds for
  every round-to-nearest arithmetic, in which the sequence therefore converges to a limit
  at most the target. If the arithmetic is accurate as well, every iterate is within 10^-7
  of the exact one, \<open>0.12 * (1 - 0.925 ^ n)\<close>, and so is the limit of 0.12. In exact
  arithmetic the limit is 0.12 itself. Both components, with or without reduced motion,
  whatever the elapsed time.
\<close>

theorem smoothing_monotone_bounded:
  assumes rounding: "round_to_nearest A"
    and mounted: "lens_group s = Some r"
    and start: "rotation_x r = 0"
    and sample: "pointer_y p = Some 1"
  shows "(\<exists>x. (\<forall>n. map_option rotation_x
                   (lens_group (run_frames (frame_BG A reduceMotion) (replicate n (p, dt)) s))
                 = Some (x n)
               \<and> map_option rotation_x
                   (lens_group (run_frames (frame_Iris A reduceMotion) (replicate n (p, dt)) s))
                 = Some (x n)
               \<and> x n \<le> x (Suc n) \<and> x n \<le> js_lit A 0.12
               \<and> (accurate A \<longrightarrow> \<bar>x n - 0.12 * (1 - (1 - 0.075) ^ n)\<bar> \<le> 1 / 10000000))
            \<and> x 0 = 0
            \<and> (\<exists>L. x \<longlonglongrightarrow> L \<and> L \<le> js_lit A 0.12
                  \<and> (accurate A \<longrightarrow> \<bar>L - 0.12\<bar> \<le> 1 / 10000000)))
       \<and> (\<exists>y. (\<forall>n. map_option rotation_x
                   (lens_group (run_frames (frame_BG exact_arith reduceMotion) (replicate n (p, dt)) s))
                 = Some (y n)
               \<and> y n \<le> y (Suc n) \<and> y n \<le> 0.12)
            \<and> y 0 = 0 \<and> y \<longlonglongrightarrow> 0.12)"
proof (rule conjI)
  define T where "T = js_lit A 0.12"
  define x where "x n = (smoothing A T ^^ n) 0" for n
  define y :: "nat \<Rightarrow> real" where "y n = 12 / 100 + (0 - 12 / 100) * (1 - 75 / 1000) ^ n" for n
  have idem: "rnd A T = T"
    unfolding T_def js_lit_def by (rule rnd_idem [OF rounding])
  have T0: "0 \<le> T"
    unfolding T_def js_lit_def by (rule rnd_nonneg [OF rounding]) simp
  have target: "js_mul A (or_zero (pointer_y p)) (js_lit A 0.12) = T"
    using idem by (simp add: sample js_mul_def T_def)
  have run: "map_option rotation_x
       (lens_group (run_frames (frame_Iris A reduceMotion) (replicate n (p, dt)) s)) = Some (x n)" for n
    unfolding run_frames_smoothing target by (simp add: mounted start x_def)
  note it = smoothing_iterate [OF rounding idem T0]
  have mono: "x n \<le> x (Suc n)" for n
    using it [of n] by (simp add: x_def)
  have bound: "x n \<le> T" for n
    using it [of n] by (simp add: x_def)
  have "incseq x"
    by (rule incseq_SucI) (rule mono)
  from incseq_convergent [OF this, of T] bound
  obtain L where L: "x \<longlonglongrightarrow> L" by blast
  from L bound have LT: "L \<le> T"
    by (intro LIMSEQ_le_const2 [of x L T]) auto
  have track: "\<bar>x n - y n\<bar> \<le> 54 / 1000000000" if a: "accurate A" for n
  proof -
    have "\<bar>T - 12 / 100\<bar> \<le> 1 / 1000000000"
      using lit_near [OF a, of "12 / 100"] by (simp add: T_def)
    then have "\<bar>T - 12 / 100\<bar> \<le> 2 / 1000000000"
      by linarith
    from smoothing_tracks [OF a this, of n] show ?thesis
      by (simp only: x_def y_def)
  qed
  have closed: "y n = 0.12 * (1 - (1 - 0.075) ^ n)" for n
    by (simp add: y_def algebra_simps)
  have near: "accurate A \<longrightarrow> \<bar>x n - 0.12 * (1 - (1 - 0.075) ^ n)\<bar> \<le> 1 / 10000000" for n
  proof
    assume "accurate A"
    from track [OF this, of n] have "\<bar>x n - y n\<bar> \<le> 1 / 10000000"
      by linarith
    then show "\<bar>x n - 0.12 * (1 - (1 - 0.075) ^ n)\<bar> \<le> 1 / 10000000"
      by (simp only: closed)
  qed
  have nearL: "accurate A \<longrightarrow> \<bar>L - 0.12\<bar> \<le> 1 / 10000000"
  proof
    assume a: "accurate A"
    have "y \<longlonglongrightarrow> 12 / 100"
      using smoothing_limit by (simp add: y_def [abs_def])
    from tendsto_rabs [OF tendsto_diff [OF L this]]
    have "(\<lambda>n. \<bar>x n - y n\<bar>) \<longlonglongrightarrow> \<bar>L - 12 / 100\<bar>" .
    then have "\<bar>L - 12 / 100\<bar> \<le> 54 / 1000000000"
      by (rule LIMSEQ_le_const2) (use track [OF a] in blast)
    then show "\<bar>L - 0.12\<bar> \<le> 1 / 10000000"
      by simp
  qed
  from L LT nearL
  have lim: "\<exists>L. x \<longlonglongrightarrow> L \<and> L \<le> T \<and> (accurate A \<longrightarrow> \<bar>L - 0.12\<bar> \<le> 1 / 10000000)"
    by blast
  have "x 0 = 0" by (simp add: x_def)
  with run mono bound near lim
  show "\<exists>x. (\<forall>n. map_option rotation_x
                   (lens_group (run_frames (frame_BG A reduceMotion) (replicate n (p, dt)) s))
                 = Some (x n)
               \<and> map_option rotation_x
                   (lens_group (run_frames (frame_Iris A reduceMotion) (replicate n (p, dt)) s))
                 = Some (x n)
               \<and> x n \<le> x (Suc n) \<and> x n \<le> js_lit A 0.12
               \<and> (accurate A \<longrightarrow> \<bar>x n - 0.12 * (1 - (1 - 0.075) ^ n)\<bar> \<le> 1 / 10000000))
            \<and> x 0 = 0
            \<and> (\<exists>L. x \<longlonglongrightarrow> L \<and> L \<le> js_lit A 0.12
                  \<and> (accurate A \<longrightarrow> \<bar>L - 0.12\<bar> \<le> 1 / 10000000))"
    unfolding T_def [symmetric] by (intro exI [of _ x]) (simp add: frame_BG_eq)
next
  define y :: "nat \<Rightarrow> real" where "y n = 12/100 + (0 - 12/100) * (1 - 75/1000) ^ n" for n
  have rep: "replicate n (p, dt) = map (Pair p) (replicate n dt)" for n
    by simp
  have run: "map_option rotation_x
       (lens_group (run_frames (frame_Iris exact_arith reduceMotion) (replicate n (p, dt)) s))
     = Some (y n)" for n
    unfolding rep run_frames_lens_x by (simp add: mounted start sample y_def)
  have mono: "y n \<le> y (Suc n)" for n
    by (simp add: y_def)
  have bound: "y n \<le> 0.12" for n
    by (simp add: y_def)
  have lim: "y \<longlonglongrightarrow> 0.12"
    using smoothing_limit by (simp add: y_def [abs_def])
  have "y 0 = 0" by (simp add: y_def)
  with run mono bound lim
  show "\<exists>y. (\<forall>n. map_option rotation_x
                   (lens_group (run_frames (frame_BG exact_arith reduceMotion) (replicate n (p, dt)) s))
                 = Some (y n)
               \<and> y n \<le> y (Suc n) \<and> y n \<le> 0.12)
            \<and> y 0 = 0 \<and> y \<longlonglongrightarrow> 0.12"
    by (intro exI [of _ y]) (simp add: frame_BG_eq)
qed

theorem smoothing_monotone_bounded_witness:
  "(\<exists>x. (\<forall>n. map_option rotation_x
                  (lens_group (run_frames (frame_BG exact_arith False)
                     (replicate n (\<lparr>pointer_x = Some 0, pointer_y = Some 1\<rparr>, 0.016)) initial_scene))
                = Some (x n)
              \<and> x n \<le> x (Suc n) \<and> x n \<le> 0.12)
           \<and> x 0 = 0 \<and> x \<longlonglongrightarrow> 0.12)
   \<and> (\<exists>x. (\<forall>n. map_option rotation_x
                  (lens_group (run_frames (frame_BG binary64_arith False)
                     (replicate n (\<lparr>pointer_x = Some 0, pointer_y = Some 1\<rparr>, 0.016)) initial_scene))
                = Some (x n)
              \<and> x n \<le> x (Suc n) \<and> x n \<le> js_lit binary64_arith 0.12
              \<and> \<bar>x n - 0.12 * (1 - (1 - 0.075) ^ n)\<bar> \<le> 1 / 10000000)
           \<and> x 0 = 0
           \<and> (\<exists>L. x \<longlonglongrightarrow> L \<and> L \<le> js_lit binary64_arith 0.12 \<and> \<bar>L - 0.12\<bar> \<le> 1 / 10000000))"
proof (rule conjI)
  have s: "lens_group initial_scene = Some \<lparr>rotation_x = 0, rotation_y = 0, rotation_z = 0\<rparr>"
    by (simp add: initial_scene_def)
  from smoothing_monotone_bounded [OF round_to_nearest_exact s, of
      "\<lparr>pointer_x = Some 0, pointer_y = Some 1\<rparr>" False "0.016"]
  obtain x where "(\<forall>n. map_option rotation_x
                  (lens_group (run_frames (frame_BG exact_arith False)
                     (replicate n (\<lparr>pointer_x = Some 0, pointer_y = Some 1\<rparr>, 0.016)) initial_scene))
                = Some (x n)
              \<and> x n \<le> x (Suc n) \<and> x n \<le> 0.12)
           \<and> x 0 = 0 \<and> x \<longlonglongrightarrow> 0.12"
    by auto
  then show "\<exists>x. (\<forall>n. map_option rotation_x
                  (lens_group (run_frames (frame_BG exact_arith False)
                     (replicate n (\<lparr>pointer_x = Some 0, pointer_y = Some 1\<rparr>, 0.016)) initial_scene))
                = Some (x n)
              \<and> x n \<le> x (Suc n) \<and> x n \<le> 0.12)
           \<and> x 0 = 0 \<and> x \<longlonglongrightarrow> 0.12"
    by (intro exI [of _ x])
  from smoothing_monotone_bounded [OF round_to_nearest_binary64 s, of
      "\<lparr>pointer_x = Some 0, pointer_y = Some 1\<rparr>" False "0.016"]
  obtain x where "(\<forall>n. map_option rotation_x
                  (lens_group (run_frames (frame_BG binary64_arith False)
                     (replicate n (\<lparr>pointer_x = Some 0, pointer_y = Some 1\<rparr>, 0.016)) initial_scene))
                = Some (x n)
              \<and> x n \<le> x (Suc n) \<and> x n \<le> js_lit binary64_arith 0.12
              \<and> \<bar>x n - 0.12 * (1 - (1 - 0.075) ^ n)\<bar> \<le> 1 / 10000000)
           \<and> x 0 = 0
           \<and> (\<exists>L. x \<longlonglongrightarrow> L \<and> L \<le> js_lit binary64_arith 0.12 \<and> \<bar>L - 0.12\<bar> \<le> 1 / 10000000)"
    using accurate_binary64 by auto
  then show "\<exists>x. (\<forall>n. map_option rotation_x
                  (lens_group (run_frames (frame_BG binary64_arith False)
                     (replicate n (\<lparr>pointer_x = Some 0, pointer_y = Some 1\<rparr>, 0.016)) initial_scene))
                = Some (x n)
              \<and> x n \<le> x (Suc n) \<and> x n \<le> js_lit binary64_arith 0.12
              \<and> \<bar>x n - 0.12 * (1 - (1 - 0.075) ^ n)\<bar> \<le> 1 / 10000000)
           \<and> x 0 = 0
           \<and> (\<exists>L. x \<longlonglongrightarrow> L \<and> L \<le> js_lit binary64_arith 0.12 \<and> \<bar>L - 0.12\<bar> \<le> 1 / 10000000)"
    by (intro exI [of _ x])
qed

subsection \<open>Three frames\<close>

lemma three_frames_run:
  "run_frames (frame_Iris A False) [(p, dt), (p, dt), (p, dt)] initial_scene =
    \<lparr>u_time = js_add A (js_add A (js_add A 0 dt) dt) dt,
     rings_group = Some \<lparr>rotation_x = 0, rotation_y = 0,
        rotation_z = js_add A (js_add A (js_add A 0
            (js_mul A dt (js_lit A 0.03))) (js_mul A dt (js_lit A 0.03)))
            (js_mul A dt (js_lit A 0.03))\<rparr>,
     lens_group = Some
       \<lparr>rotation_x =
          smoothing A (js_mul A (or_zero (pointer_y p)) (js_lit A 0.12))
            (smoothing A (js_mul A (or_zero (pointer_y p)) (js_lit A 0.12))
               (smoothing A (js_mul A (or_zero (pointer_y p)) (js_lit A 0.12)) 0)),
        rotation_y =
          smoothing A (js_mul A (or_zero (pointer_x p)) (js_lit A 0.12))
            (smoothing A (js_mul A (or_zero (pointer_x p)) (js_lit A 0.12))
               (smoothing A (js_mul A (or_zero (pointer_x p)) (js_lit A 0.12)) 0)),
        rotation_z = js_add A (js_add A (js_add A 0
            (js_mul A dt (js_lit A 0.1))) (js_mul A dt (js_lit A 0.1)))
            (js_mul A dt (js_lit A 0.1))\<rparr>\<rparr>"
  by (simp add: frame_Iris_eq initial_scene_def)

lemma time_three_frames:
  assumes A: "accurate A"
  shows "\<bar>js_add A (js_add A (js_add A 0 (js_lit A (16 / 1000))) (js_lit A (16 / 1000))) (js_lit A (16 / 1000)) - 48 / 1000\<bar> \<le> 6 / 1000000000"
proof -
  define dt where "dt = js_lit A (16 / 1000)"
  have dt: "\<bar>dt - 16 / 1000\<bar> \<le> 1 / 1000000000"
    unfolding dt_def by (rule lit_near [OF A]) simp
  have z: "\<bar>(0::real) - 0\<bar> \<le> 0" by simp
  from add_near [OF A z dt] have t1: "\<bar>js_add A 0 dt - 16 / 1000\<bar> \<le> 2 / 1000000000"
    by simp
  from add_near [OF A t1 dt] have t2: "\<bar>js_add A (js_add A 0 dt) dt - 32 / 1000\<bar> \<le> 4 / 1000000000"
    by simp
  from add_near [OF A t2 dt]
  have "\<bar>js_add A (js_add A (js_add A 0 dt) dt) dt - 48 / 1000\<bar> \<le> 6 / 1000000000"
    by simp
  then show ?thesis
    by (simp only: dt_def)
qed

lemma rotation_z_three_frames:
  assumes A: "accurate A"
  shows "\<bar>js_add A (js_add A (js_add A 0
               (js_mul A (js_lit A (16 / 1000)) (js_lit A (1 / 10))))
               (js_mul A (js_lit A (16 / 1000)) (js_lit A (1 / 10))))
               (js_mul A (js_lit A (16 / 1000)) (js_lit A (1 / 10))) - 48 / 10000\<bar>
           \<le> 12 / 1000000000"
proof -
  define dt where "dt = js_lit A (16 / 1000)"
  define inc where "inc = js_mul A dt (js_lit A (1 / 10))"
  have dt: "\<bar>dt - 16 / 1000\<bar> \<le> 1 / 1000000000"
    unfolding dt_def by (rule lit_near [OF A]) simp
  then have dt1: "\<bar>dt\<bar> \<le> 1" by linarith
  have c: "\<bar>js_lit A (1 / 10) - 1 / 10\<bar> \<le> 1 / 1000000000"
    by (rule lit_near [OF A]) simp
  have b: "\<bar>(1 / 10 :: real)\<bar> \<le> 1" by simp
  from mul_near [OF A dt c dt1 b]
  have inc: "\<bar>inc - 16 / 10000\<bar> \<le> 3 / 1000000000"
    unfolding inc_def by simp
  have z: "\<bar>(0::real) - 0\<bar> \<le> 0" by simp
  from add_near [OF A z inc] have z1: "\<bar>js_add A 0 inc - 16 / 10000\<bar> \<le> 4 / 1000000000"
    by simp
  from add_near [OF A z1 inc] have z2: "\<bar>js_add A (js_add A 0 inc) inc - 32 / 10000\<bar> \<le> 8 / 1000000000"
    by simp
  from add_near [OF A z2 inc]
  have "\<bar>js_add A (js_add A (js_add A 0 inc) inc) inc - 48 / 10000\<bar> \<le> 12 / 1000000000"
    by simp
  then show ?thesis
    by (simp only: inc_def dt_def)
qed

lemma rotation_x_three_frames:
  assumes A: "accurate A"
  shows "\<bar>smoothing A (js_mul A (- 1) (js_lit A (12 / 100)))
            (smoothing A (js_mul A (- 1) (js_lit A (12 / 100)))
               (smoothing A (js_mul A (- 1) (js_lit A (12 / 100))) 0))
          - (- 25025625 / 1000000000)\<bar> \<le> 14 / 1000000000"
proof -
  define T where "T = js_mul A (- 1) (js_lit A (12 / 100))"
  have c: "\<bar>js_lit A (12 / 100) - 12 / 100\<bar> \<le> 1 / 1000000000"
    by (rule lit_near [OF A]) simp
  have m1: "\<bar>(- 1::real) - (- 1)\<bar> \<le> 0" "\<bar>- 1 :: real\<bar> \<le> 1" "\<bar>12 / 100 :: real\<bar> \<le> 1"
    by simp_all
  from mul_near [OF A m1(1) c m1(2,3)]
  have T: "\<bar>T - (- 12 / 100)\<bar> \<le> 2 / 1000000000"
    unfolding T_def by simp
  have T0: "\<bar>- 12 / 100 :: real\<bar> \<le> 1 / 4" by simp
  have z: "\<bar>(0::real) - 0\<bar> \<le> 0" "\<bar>0::real\<bar> \<le> 1 / 4" "(0::real) \<le> 1 / 1000"
    by simp_all
  from smoothing_contracts [OF A T T0 z]
  have x1: "\<bar>smoothing A T 0 - (- 9 / 1000)\<bar> \<le> 4 / 1000000000"
    by simp
  have b1: "\<bar>- 9 / 1000 :: real\<bar> \<le> 1 / 4" "(4 / 1000000000 :: real) \<le> 1 / 1000"
    by simp_all
  from smoothing_contracts [OF A T T0 x1 b1]
  have x2: "\<bar>smoothing A T (smoothing A T 0) - (- 17325 / 1000000)\<bar> \<le> 8 / 1000000000"
    by simp
  have b2: "\<bar>- 17325 / 1000000 :: real\<bar> \<le> 1 / 4" "(8 / 1000000000 :: real) \<le> 1 / 1000"
    by simp_all
  from smoothing_contracts [OF A T T0 x2 b2]
  have "\<bar>smoothing A T (smoothing A T (smoothing A T 0)) - (- 25025625 / 1000000000)\<bar>
      \<le> 14 / 1000000000"
    by simp
  then show ?thesis
    by (simp only: T_def)
qed

text \<open>
  C6, as the specification states it, fails in its last digits: after the three frames
  the x rotation is \<open>-0.025025625\<close>, more than two units of the fifth decimal place away
  from the stated \<open>-0.02505\<close>, and the factor \<open>1 - (1 - 0.075)^3\<close> is more than one unit of the
  fourth decimal place away from the stated \<open>0.2087\<close>.
\<close>

theorem three_frames_counterexample:
  "\<exists>x. map_option rotation_x (lens_group (run_frames (frame_BG exact_arith False)
           [(\<lparr>pointer_x = Some 1, pointer_y = Some (- 1)\<rparr>, 0.016),
            (\<lparr>pointer_x = Some 1, pointer_y = Some (- 1)\<rparr>, 0.016),
            (\<lparr>pointer_x = Some 1, pointer_y = Some (- 1)\<rparr>, 0.016)] initial_scene)) = Some x
     \<and> 0.00002 < \<bar>x - (- 0.02505)\<bar>
     \<and> 0.0001 < \<bar>(1 - (1 - 0.075) ^ 3) - (0.2087::real)\<bar>"
  by (simp add: frame_BG_eq frame_Iris_exact initial_scene_def power3_eq_cube)

text \<open>
  C6, amended. From the initial scene, with motion enabled, the pointer fixed at
  \<open>(1, -1)\<close> and three frames of \<open>dt = 0.016\<close>: the shader's time ends at 0.048, the lens
  group's z rotation at 0.0048, and its x rotation has moved from 0 toward \<open>-0.12\<close> by the
  factor \<open>1 - (1 - 0.075)^3 = 0.208546875\<close>, to \<open>-0.025025625\<close>; each to within \<open>10^-6\<close>, in
  every accurate arithmetic and in both components.
\<close>

theorem three_frames_scenario:
  assumes "accurate A"
  shows "\<exists>s3 z x.
       s3 = run_frames (frame_BG A False)
              [(\<lparr>pointer_x = Some 1, pointer_y = Some (- 1)\<rparr>, js_lit A 0.016),
               (\<lparr>pointer_x = Some 1, pointer_y = Some (- 1)\<rparr>, js_lit A 0.016),
               (\<lparr>pointer_x = Some 1, pointer_y = Some (- 1)\<rparr>, js_lit A 0.016)] initial_scene
     \<and> s3 = run_frames (frame_Iris A False)
              [(\<lparr>pointer_x = Some 1, pointer_y = Some (- 1)\<rparr>, js_lit A 0.016),
               (\<lparr>pointer_x = Some 1, pointer_y = Some (- 1)\<rparr>, js_lit A 0.016),
               (\<lparr>pointer_x = Some 1, pointer_y = Some (- 1)\<rparr>, js_lit A 0.016)] initial_scene
     \<and> \<bar>u_time s3 - 0.048\<bar> \<le> 1 / 1000000
     \<and> map_option rotation_z (lens_group s3) = Some z \<and> \<bar>z - 0.0048\<bar> \<le> 1 / 1000000
     \<and> map_option rotation_x (lens_group s3) = Some x
     \<and> \<bar>x - (- 0.12 * (1 - (1 - 0.075) ^ 3))\<bar> \<le> 1 / 1000000
     \<and> 1 - (1 - 0.075) ^ 3 = (0.208546875 :: real)
     \<and> - 0.12 * 0.208546875 = (- 0.025025625 :: real)"
proof -
  have t: "\<bar>js_add A (js_add A (js_add A 0 (js_lit A 0.016)) (js_lit A 0.016)) (js_lit A 0.016)
      - 0.048\<bar> \<le> 1 / 1000000"
    using time_three_frames [OF assms] by simp
  have z: "\<bar>js_add A (js_add A (js_add A 0
               (js_mul A (js_lit A 0.016) (js_lit A 0.1)))
               (js_mul A (js_lit A 0.016) (js_lit A 0.1)))
               (js_mul A (js_lit A 0.016) (js_lit A 0.1)) - 0.0048\<bar> \<le> 1 / 1000000"
    using rotation_z_three_frames [OF assms] by simp
  have f: "1 - (1 - 0.075) ^ 3 = (0.208546875 :: real)"
    by (simp add: power3_eq_cube)
  have x: "\<bar>smoothing A (js_mul A (- 1) (js_lit A 0.12))
            (smoothing A (js_mul A (- 1) (js_lit A 0.12))
               (smoothing A (js_mul A (- 1) (js_lit A 0.12)) 0))
          - (- 0.12 * (1 - (1 - 0.075) ^ 3))\<bar> \<le> 1 / 1000000"
    unfolding f using rotation_x_three_frames [OF assms] by simp
  show ?thesis
    unfolding frame_BG_eq three_frames_run using t z x f by simp
qed

theorem three_frames_scenario_witness:
  "(\<exists>x. map_option rotation_x (lens_group (run_frames (frame_BG exact_arith False)
           [(\<lparr>pointer_x = Some 1, pointer_y = Some (- 1)\<rparr>, 0.016),
            (\<lparr>pointer_x = Some 1, pointer_y = Some (- 1)\<rparr>, 0.016),
            (\<lparr>pointer_x = Some 1, pointer_y = Some (- 1)\<rparr>, 0.016)] initial_scene)) = Some x
     \<and> \<bar>x - (- 0.025025625)\<bar> \<le> 1 / 1000000)
   \<and> (\<exists>x. map_option rotation_x (lens_group (run_frames (frame_BG binary64_arith False)
           [(\<lparr>pointer_x = Some 1, pointer_y = Some (- 1)\<rparr>, js_lit binary64_arith 0.016),
            (\<lparr>pointer_x = Some 1, pointer_y = Some (- 1)\<rparr>, js_lit binary64_arith 0.016),
            (\<lparr>pointer_x = Some 1, pointer_y = Some (- 1)\<rparr>, js_lit binary64_arith 0.016)]
           initial_scene)) = Some x
     \<and> \<bar>x - (- 0.025025625)\<bar> \<le> 1 / 1000000)"
proof (rule conjI)
  have v: "- 0.12 * (1 - (1 - 0.075) ^ 3) = (- 0.025025625 :: real)"
    by (simp add: power3_eq_cube)
  from three_frames_scenario [OF accurate_exact]
  obtain x where "map_option rotation_x (lens_group (run_frames (frame_BG exact_arith False)
           [(\<lparr>pointer_x = Some 1, pointer_y = Some (- 1)\<rparr>, js_lit exact_arith 0.016),
            (\<lparr>pointer_x = Some 1, pointer_y = Some (- 1)\<rparr>, js_lit exact_arith 0.016),
            (\<lparr>pointer_x = Some 1, pointer_y = Some (- 1)\<rparr>, js_lit exact_arith 0.016)]
           initial_scene)) = Some x"
    and "\<bar>x - (- 0.12 * (1 - (1 - 0.075) ^ 3))\<bar> \<le> 1 / 1000000"
    by blast
  then show "\<exists>x. map_option rotation_x (lens_group (run_frames (frame_BG exact_arith False)
           [(\<lparr>pointer_x = Some 1, pointer_y = Some (- 1)\<rparr>, 0.016),
            (\<lparr>pointer_x = Some 1, pointer_y = Some (- 1)\<rparr>, 0.016),
            (\<lparr>pointer_x = Some 1, pointer_y = Some (- 1)\<rparr>, 0.016)] initial_scene)) = Some x
     \<and> \<bar>x - (- 0.025025625)\<bar> \<le> 1 / 1000000"
    unfolding v by (simp only: exact_ops) blast
  from three_frames_scenario [OF accurate_binary64]
  obtain x where "map_option rotation_x (lens_group (run_frames (frame_BG binary64_arith False)
           [(\<lparr>pointer_x = Some 1, pointer_y = Some (- 1)\<rparr>, js_lit binary64_arith 0.016),
            (\<lparr>pointer_x = Some 1, pointer_y = Some (- 1)\<rparr>, js_lit binary64_arith 0.016),
            (\<lparr>pointer_x = Some 1, pointer_y = Some (- 1)\<rparr>, js_lit binary64_arith 0.016)]
           initial_scene)) = Some x"
    and "\<bar>x - (- 0.12 * (1 - (1 - 0.075) ^ 3))\<bar> \<le> 1 / 1000000"
    by blast
  then show "\<exists>x. map_option rotation_x (lens_group (run_frames (frame_BG binary64_arith False)
           [(\<lparr>pointer_x = Some 1, pointer_y = Some (- 1)\<rparr>, js_lit binary64_arith 0.016),
            (\<lparr>pointer_x = Some 1, pointer_y = Some (- 1)\<rparr>, js_lit binary64_arith 0.016),
            (\<lparr>pointer_x = Some 1, pointer_y = Some (- 1)\<rparr>, js_lit binary64_arith 0.016)]
           initial_scene)) = Some x
     \<and> \<bar>x - (- 0.025025625)\<bar> \<le> 1 / 1000000"
    unfolding v by blast
qed

subsection \<open>The two components\<close>



section \<open>The ring geometry: results\<close>

subsection \<open>The loops in closed form\<close>

lemma points_loop_step:
  "j \<le> steps \<Longrightarrow>
     points_loop A R steps j pts = points_loop A R steps (j + 1) (pts @ [ring_vertex A R steps j])"
  by (subst points_loop.simps) (simp only: if_True Let_def ring_vertex_def)

lemma points_loop_eq:
  "points_loop A R steps j pts = pts @ map (ring_vertex A R steps) [j..<Suc steps]"
proof (induction "Suc steps - j" arbitrary: j pts)
  case 0
  then have "\<not> j \<le> steps" and "[j..<Suc steps] = []"
    by simp_all
  then show ?case
    by (subst points_loop.simps) (simp only: if_False list.map append_Nil2)
next
  case (Suc n)
  then have le: "j \<le> steps" and n: "n = Suc steps - (j + 1)"
    by simp_all
  from le have upt: "[j..<Suc steps] = j # [j + 1..<Suc steps]"
    by (simp add: upt_conv_Cons del: upt_Suc)
  show ?case
    unfolding points_loop_step [OF le] Suc.hyps(1) [OF n] upt
    by (simp only: append_assoc append_Cons append_Nil list.map)
qed

lemma rings_loop_step:
  "i < ringCount \<Longrightarrow>
     rings_loop A ringCount i arr = rings_loop A ringCount (i + 1) (arr @ [ring_spec A i])"
  by (subst rings_loop.simps)
     (simp only: if_True Let_def ring_spec_def points_loop_eq append_Nil)

lemma rings_loop_eq:
  "rings_loop A ringCount i arr = arr @ map (ring_spec A) [i..<ringCount]"
proof (induction "ringCount - i" arbitrary: i arr)
  case 0
  then have "\<not> i < ringCount" and "[i..<ringCount] = []"
    by simp_all
  then show ?case
    by (subst rings_loop.simps) (simp only: if_False list.map append_Nil2)
next
  case (Suc n)
  then have less: "i < ringCount" and n: "n = ringCount - (i + 1)"
    by simp_all
  from less have upt: "[i..<ringCount] = i # [i + 1..<ringCount]"
    by (simp add: upt_conv_Cons)
  show ?case
    unfolding rings_loop_step [OF less] Suc.hyps(1) [OF n] upt
    by (simp only: append_assoc append_Cons append_Nil list.map)
qed

lemma rings_eq: "rings A = [ring_spec A 0, ring_spec A 1, ring_spec A 2]"
proof -
  have "[0..<3] = [0, 1, 2::nat]"
    by (simp add: upt_conv_Cons)
  then show ?thesis
    by (simp add: rings_def rings_loop_eq)
qed

lemma points_ring_spec_nth:
  "j \<le> 180 \<Longrightarrow> points (ring_spec A i) ! j = ring_vertex A (radius (ring_spec A i)) 180 j"
proof -
  assume "j \<le> 180"
  then have "j < Suc 180 - 0" by simp
  then have "map (ring_vertex A (radius (ring_spec A i)) 180) [0..<Suc 180] ! j
      = ring_vertex A (radius (ring_spec A i)) 180 (0 + j)"
    by (rule nth_map_upt)
  then show ?thesis
    by (simp add: ring_spec_def Let_def del: upt_Suc)
qed

lemma length_points_ring_spec: "length (points (ring_spec A i)) = 181"
  by (simp add: ring_spec_def Let_def del: upt_Suc)

text \<open>
  C10. For every ring and every marker index \<open>k\<close> in 0..11, the \<open>k\<close>-th marker position
  coincides with the ring polyline's vertex at index \<open>15k\<close>, coordinate for coordinate,
  as the same Number and not merely up to rounding: whatever the rounding function and
  the engine's \<^verbatim>\<open>Math.cos\<close>, \<^verbatim>\<open>Math.sin\<close> and \<^verbatim>\<open>Math.PI\<close>, the two angles are the rounding of
  one and the same quotient, \<open>k/12 = 15k/180\<close>, and the same operations follow on the same
  radius.
\<close>

theorem markers_on_polyline:
  assumes "ring \<in> set (rings A)" and "k < 12"
  shows "ring_nodes A ring ! k =
           (vec_x (points ring ! (15 * k)), vec_y (points ring ! (15 * k)),
            vec_z (points ring ! (15 * k)))"
proof -
  from assms(1) obtain i where ring: "ring = ring_spec A i"
    by (auto simp: rings_eq)
  from assms(2) have j: "15 * k \<le> 180" by simp
  have q: "real (15 * k) / 180 = real k / 12"
    by simp
  have "ring_nodes A ring ! k = node_position A ring k"
    using assms(2) by (simp add: ring_nodes_def nth_map_upt del: upt_Suc)
  then show ?thesis
    unfolding ring points_ring_spec_nth [OF j]
    by (simp add: node_position_def ring_vertex_def Let_def js_div_def q del: of_nat_mult)
qed

theorem markers_on_polyline_witness:
  "ring_nodes exact_arith (rings exact_arith ! 2) ! 3 =
     (vec_x (points (rings exact_arith ! 2) ! 45), vec_y (points (rings exact_arith ! 2) ! 45),
      vec_z (points (rings exact_arith ! 2) ! 45))
   \<and> ring_nodes binary64_arith (rings binary64_arith ! 2) ! 1 =
     (vec_x (points (rings binary64_arith ! 2) ! 15), vec_y (points (rings binary64_arith ! 2) ! 15),
      vec_z (points (rings binary64_arith ! 2) ! 15))"
proof -
  have mem: "rings A ! 2 \<in> set (rings A)" for A
    by (simp add: rings_eq)
  from markers_on_polyline [OF mem, of 3 exact_arith]
    markers_on_polyline [OF mem, of 1 binary64_arith]
  show ?thesis
    by simp
qed

subsection \<open>The rings to within rounding\<close>

lemma radius_accurate:
  assumes A: "accurate A" and i: "i \<le> 2"
  shows "\<bar>radius (ring_spec A i) - (9 / 10 + real i * (22 / 100))\<bar> \<le> 5 / 1000000000"
proof -
  define c9 where "c9 = rnd A 0.9"
  define c22 where "c22 = rnd A 0.22"
  define m where "m = rnd A (real i * c22)"
  have r: "radius (ring_spec A i) = rnd A (c9 + m)"
    by (simp add: ring_spec_def Let_def js_add_def js_mul_def js_lit_def c9_def c22_def m_def
        del: upt_Suc)
  from i have i2: "real i \<le> 2" "0 \<le> real i" by simp_all
  have c9: "\<bar>c9 - 0.9\<bar> \<le> 1 / 1000000000"
    unfolding c9_def using rnd_near [OF A, of "0.9" "0.9" 0] by simp
  have c22: "\<bar>c22 - 0.22\<bar> \<le> 1 / 1000000000"
    unfolding c22_def using rnd_near [OF A, of "0.22" "0.22" 0] by simp
  have p: "\<bar>real i * c22 - real i * 0.22\<bar> \<le> 2 / 1000000000"
    using product_near [of "real i" "real i" 0 c22 "0.22" "1 / 1000000000" 2 "0.22"] c22 i2
    by simp
  have "\<bar>real i * 0.22\<bar> + 2 / 1000000000 \<le> 16"
    using i2 by simp
  from rnd_near [OF A p this] have m: "\<bar>m - real i * 0.22\<bar> \<le> 3 / 1000000000"
    by (simp add: m_def)
  from c9 m have s: "\<bar>(c9 + m) - (0.9 + real i * 0.22)\<bar> \<le> 4 / 1000000000"
    by linarith
  have "\<bar>0.9 + real i * 0.22\<bar> + 4 / 1000000000 \<le> 16"
    using i2 by simp
  from rnd_near [OF A s this] show ?thesis
    by (simp add: r)
qed

lemma angle_accurate:
  assumes A: "accurate A" and j: "j \<le> 180"
  shows "\<bar>js_mul A (js_mul A (js_div A (real j) 180) (Math_PI A)) 2 - 2 * pi * real j / 180\<bar>
           \<le> 15 / 1000000000"
proof -
  define a where "a = real j / 180"
  define q where "q = rnd A a"
  define m where "m = rnd A (q * Math_PI A)"
  from j have a: "0 \<le> a" "a \<le> 1"
    by (simp_all add: a_def)
  have pi4: "\<bar>pi\<bar> \<le> 4"
    using pi_less_4 pi_gt_zero by simp
  have q: "\<bar>q - a\<bar> \<le> 1 / 1000000000"
    unfolding q_def using rnd_near [OF A, of a a 0] a by simp
  with a have q2: "\<bar>q\<bar> \<le> 2"
    by linarith
  from A have P: "\<bar>Math_PI A - pi\<bar> \<le> 1 / 1000000000"
    by (simp add: accurate_def)
  from product_near [OF q P q2 pi4]
  have p: "\<bar>q * Math_PI A - a * pi\<bar> \<le> 6 / 1000000000"
    by simp
  have api: "\<bar>a * pi\<bar> \<le> 4"
  proof -
    have "\<bar>a * pi\<bar> = a * pi" using a by simp
    also have "\<dots> \<le> 1 * 4" using a pi_less_4 by (intro mult_mono) simp_all
    finally show ?thesis by simp
  qed
  then have "\<bar>a * pi\<bar> + 6 / 1000000000 \<le> 16"
    by simp
  from rnd_near [OF A p this] have m: "\<bar>m - a * pi\<bar> \<le> 7 / 1000000000"
    by (simp add: m_def)
  then have m2: "\<bar>m * 2 - a * pi * 2\<bar> \<le> 14 / 1000000000"
    by linarith
  from api have "\<bar>a * pi * 2\<bar> + 14 / 1000000000 \<le> 16"
    by simp
  from rnd_near [OF A m2 this] have "\<bar>rnd A (m * 2) - a * pi * 2\<bar> \<le> 15 / 1000000000"
    by simp
  moreover have "a * pi * 2 = 2 * pi * real j / 180"
    by (simp add: a_def)
  ultimately show ?thesis
    by (simp add: js_mul_def js_div_def m_def q_def a_def)
qed

lemma vertex_accurate:
  assumes A: "accurate A" and j: "j \<le> 180" and R: "\<bar>R\<bar> \<le> 2"
  shows "\<bar>vec_x (ring_vertex A R 180 j) - R * cos (2 * pi * real j / 180)\<bar> \<le> 33 / 1000000000"
    and "\<bar>vec_y (ring_vertex A R 180 j) - R * sin (2 * pi * real j / 180)\<bar> \<le> 33 / 1000000000"
    and "\<bar>vec_z (ring_vertex A R 180 j) - (- 0.2)\<bar> \<le> 1 / 1000000000"
proof -
  define \<theta> where "\<theta> = 2 * pi * real j / 180"
  define t where "t = js_mul A (js_mul A (js_div A (real j) 180) (Math_PI A)) 2"
  have t: "\<bar>t - \<theta>\<bar> \<le> 15 / 1000000000"
    unfolding t_def \<theta>_def by (rule angle_accurate [OF A j])
  have "0 \<le> \<theta>" "\<theta> \<le> 8"
  proof -
    show "0 \<le> \<theta>" by (simp add: \<theta>_def)
    have "\<theta> = 2 * pi * (real j / 180)" by (simp add: \<theta>_def)
    also have "\<dots> \<le> 2 * 4 * 1"
      using j pi_less_4 by (intro mult_mono) simp_all
    finally show "\<theta> \<le> 8" by simp
  qed
  with t have t16: "\<bar>t\<bar> \<le> 16"
    by linarith
  with A have c: "\<bar>Math_cos A t - cos t\<bar> \<le> 1 / 1000000000"
    and s: "\<bar>Math_sin A t - sin t\<bar> \<le> 1 / 1000000000"
    by (simp_all add: accurate_def)
  from c cos_lipschitz [of t \<theta>] t have c': "\<bar>Math_cos A t - cos \<theta>\<bar> \<le> 16 / 1000000000"
    by linarith
  from s sin_lipschitz [of t \<theta>] t have s': "\<bar>Math_sin A t - sin \<theta>\<bar> \<le> 16 / 1000000000"
    by linarith
  have c1: "\<bar>cos \<theta>\<bar> \<le> 1" and s1: "\<bar>sin \<theta>\<bar> \<le> 1"
    by simp_all
  from c' c1 have cb: "\<bar>Math_cos A t\<bar> \<le> 2" by linarith
  from s' s1 have sb: "\<bar>Math_sin A t\<bar> \<le> 2" by linarith
  have R0: "\<bar>R - R\<bar> \<le> 0" by simp
  from product_near [OF c' R0 cb R]
  have pc: "\<bar>Math_cos A t * R - cos \<theta> * R\<bar> \<le> 32 / 1000000000"
    by simp
  from product_near [OF s' R0 sb R]
  have ps: "\<bar>Math_sin A t * R - sin \<theta> * R\<bar> \<le> 32 / 1000000000"
    by simp
  have "\<bar>cos \<theta> * R\<bar> \<le> 1 * 2"
    unfolding abs_mult using c1 R by (intro mult_mono) simp_all
  then have "\<bar>cos \<theta> * R\<bar> + 32 / 1000000000 \<le> 16"
    by simp
  from rnd_near [OF A pc this]
  show "\<bar>vec_x (ring_vertex A R 180 j) - R * cos (2 * pi * real j / 180)\<bar> \<le> 33 / 1000000000"
    by (simp add: ring_vertex_def Let_def js_mul_def [of A "Math_cos A _"] t_def \<theta>_def mult.commute)
  have "\<bar>sin \<theta> * R\<bar> \<le> 1 * 2"
    unfolding abs_mult using s1 R by (intro mult_mono) simp_all
  then have "\<bar>sin \<theta> * R\<bar> + 32 / 1000000000 \<le> 16"
    by simp
  from rnd_near [OF A ps this]
  show "\<bar>vec_y (ring_vertex A R 180 j) - R * sin (2 * pi * real j / 180)\<bar> \<le> 33 / 1000000000"
    by (simp add: ring_vertex_def Let_def js_mul_def [of A "Math_sin A _"] t_def \<theta>_def mult.commute)
  have "\<bar>rnd A 0.2 - 0.2\<bar> \<le> 1 / 1000000000"
    using rnd_near [OF A, of "0.2" "0.2" 0] by simp
  moreover have "vec_z (ring_vertex A R 180 j) = - rnd A 0.2"
    by (simp add: ring_vertex_def Let_def js_lit_def)
  ultimately show "\<bar>vec_z (ring_vertex A R 180 j) - (- 0.2)\<bar> \<le> 1 / 1000000000"
    by linarith
qed

lemma ring_spec_accurate:
  assumes A: "accurate A" and i: "i \<le> 2"
  shows "length (points (ring_spec A i)) = 181
   \<and> (\<forall>j\<le>180.
         \<bar>vec_x (points (ring_spec A i) ! j) - radius (ring_spec A i) * cos (2 * pi * real j / 180)\<bar>
           \<le> 1 / 1000000
       \<and> \<bar>vec_y (points (ring_spec A i) ! j) - radius (ring_spec A i) * sin (2 * pi * real j / 180)\<bar>
           \<le> 1 / 1000000
       \<and> \<bar>vec_z (points (ring_spec A i) ! j) - (- 0.2)\<bar> \<le> 1 / 1000000)
   \<and> \<bar>vec_x (points (ring_spec A i) ! 0) - vec_x (points (ring_spec A i) ! 180)\<bar> \<le> 1 / 1000000
   \<and> \<bar>vec_y (points (ring_spec A i) ! 0) - vec_y (points (ring_spec A i) ! 180)\<bar> \<le> 1 / 1000000
   \<and> vec_z (points (ring_spec A i) ! 0) = vec_z (points (ring_spec A i) ! 180)"
proof -
  define R where "R = radius (ring_spec A i)"
  from i have "real i \<le> 2" "0 \<le> real i" by simp_all
  with radius_accurate [OF A i] have R: "\<bar>R\<bar> \<le> 2"
    unfolding R_def by linarith
  have nth: "points (ring_spec A i) ! j = ring_vertex A R 180 j" if "j \<le> 180" for j
    unfolding R_def using that by (rule points_ring_spec_nth)
  have each: "\<bar>vec_x (points (ring_spec A i) ! j) - R * cos (2 * pi * real j / 180)\<bar> \<le> 1 / 1000000
       \<and> \<bar>vec_y (points (ring_spec A i) ! j) - R * sin (2 * pi * real j / 180)\<bar> \<le> 1 / 1000000
       \<and> \<bar>vec_z (points (ring_spec A i) ! j) - (- 0.2)\<bar> \<le> 1 / 1000000" if j: "j \<le> 180" for j
    unfolding nth [OF j] using vertex_accurate [OF A j R] by linarith
  have x0: "\<bar>vec_x (ring_vertex A R 180 0) - R\<bar> \<le> 33 / 1000000000"
    and y0: "\<bar>vec_y (ring_vertex A R 180 0)\<bar> \<le> 33 / 1000000000"
    using vertex_accurate(1,2) [OF A _ R, of 0] by simp_all
  have x180: "\<bar>vec_x (ring_vertex A R 180 180) - R\<bar> \<le> 33 / 1000000000"
    and y180: "\<bar>vec_y (ring_vertex A R 180 180)\<bar> \<le> 33 / 1000000000"
    using vertex_accurate(1,2) [OF A _ R, of 180] by simp_all
  have cx: "\<bar>vec_x (points (ring_spec A i) ! 0) - vec_x (points (ring_spec A i) ! 180)\<bar> \<le> 1 / 1000000"
    unfolding nth [of 0, simplified] nth [of 180, simplified] using x0 x180 by linarith
  have cy: "\<bar>vec_y (points (ring_spec A i) ! 0) - vec_y (points (ring_spec A i) ! 180)\<bar> \<le> 1 / 1000000"
    unfolding nth [of 0, simplified] nth [of 180, simplified] using y0 y180 by linarith
  have cz: "vec_z (points (ring_spec A i) ! 0) = vec_z (points (ring_spec A i) ! 180)"
    unfolding nth [of 0, simplified] nth [of 180, simplified]
    by (simp add: ring_vertex_def Let_def)
  from each cx cy cz length_points_ring_spec [of A i] show ?thesis
    unfolding R_def by blast
qed

text \<open>
  C2. The builder returns exactly 3 rings, with radii 0.90, 1.12 and 1.34 to within
  \<open>10^-6\<close>; each ring has exactly 181 points; point \<open>j\<close> is, to within \<open>10^-6\<close> in each
  coordinate, the point of the circle of the ring's radius at angle \<open>2\<pi>j/180\<close> and depth
  \<open>-0.2\<close>; and the first and the last point agree to within \<open>10^-6\<close>. This holds in every
  accurate arithmetic. The builder is a function of nothing but the arithmetic: it reads
  no state, so the same inputs give the same points.
\<close>

theorem rings_geometry:
  assumes "accurate A"
  shows "length (rings A) = 3
   \<and> \<bar>radius (rings A ! 0) - 0.90\<bar> \<le> 1 / 1000000
   \<and> \<bar>radius (rings A ! 1) - 1.12\<bar> \<le> 1 / 1000000
   \<and> \<bar>radius (rings A ! 2) - 1.34\<bar> \<le> 1 / 1000000
   \<and> (\<forall>ring\<in>set (rings A).
        length (points ring) = 181
      \<and> (\<forall>j\<le>180.
            \<bar>vec_x (points ring ! j) - radius ring * cos (2 * pi * real j / 180)\<bar> \<le> 1 / 1000000
          \<and> \<bar>vec_y (points ring ! j) - radius ring * sin (2 * pi * real j / 180)\<bar> \<le> 1 / 1000000
          \<and> \<bar>vec_z (points ring ! j) - (- 0.2)\<bar> \<le> 1 / 1000000)
      \<and> \<bar>vec_x (points ring ! 0) - vec_x (points ring ! 180)\<bar> \<le> 1 / 1000000
      \<and> \<bar>vec_y (points ring ! 0) - vec_y (points ring ! 180)\<bar> \<le> 1 / 1000000
      \<and> vec_z (points ring ! 0) = vec_z (points ring ! 180))"
proof -
  have len: "length (rings A) = 3"
    by (simp add: rings_eq)
  have r0: "\<bar>radius (rings A ! 0) - 0.90\<bar> \<le> 1 / 1000000"
    using radius_accurate [OF assms, of 0] by (simp add: rings_eq)
  have r1: "\<bar>radius (rings A ! 1) - 1.12\<bar> \<le> 1 / 1000000"
    using radius_accurate [OF assms, of 1] by (simp add: rings_eq)
  have r2: "\<bar>radius (rings A ! 2) - 1.34\<bar> \<le> 1 / 1000000"
    using radius_accurate [OF assms, of 2] by (simp add: rings_eq)
  have each: "length (points ring) = 181
      \<and> (\<forall>j\<le>180.
            \<bar>vec_x (points ring ! j) - radius ring * cos (2 * pi * real j / 180)\<bar> \<le> 1 / 1000000
          \<and> \<bar>vec_y (points ring ! j) - radius ring * sin (2 * pi * real j / 180)\<bar> \<le> 1 / 1000000
          \<and> \<bar>vec_z (points ring ! j) - (- 0.2)\<bar> \<le> 1 / 1000000)
      \<and> \<bar>vec_x (points ring ! 0) - vec_x (points ring ! 180)\<bar> \<le> 1 / 1000000
      \<and> \<bar>vec_y (points ring ! 0) - vec_y (points ring ! 180)\<bar> \<le> 1 / 1000000
      \<and> vec_z (points ring ! 0) = vec_z (points ring ! 180)" if "ring \<in> set (rings A)" for ring
  proof -
    from that obtain i where ring: "ring = ring_spec A i" and i: "i \<le> 2"
      by (auto simp: rings_eq)
    show ?thesis
      unfolding ring by (rule ring_spec_accurate [OF assms i])
  qed
  from len r0 r1 r2 each show ?thesis
    by blast
qed

theorem rings_geometry_witness:
  "length (points (rings exact_arith ! 1)) = 181
   \<and> \<bar>radius (rings exact_arith ! 1) - 1.12\<bar> \<le> 1 / 1000000
   \<and> \<bar>vec_x (points (rings exact_arith ! 1) ! 0) - vec_x (points (rings exact_arith ! 1) ! 180)\<bar>
       \<le> 1 / 1000000
   \<and> length (points (rings binary64_arith ! 1)) = 181
   \<and> \<bar>radius (rings binary64_arith ! 1) - 1.12\<bar> \<le> 1 / 1000000
   \<and> \<bar>vec_x (points (rings binary64_arith ! 1) ! 0) - vec_x (points (rings binary64_arith ! 1) ! 180)\<bar>
       \<le> 1 / 1000000
   \<and> \<bar>vec_z (points (rings binary64_arith ! 1) ! 45) - (- 0.2)\<bar> \<le> 1 / 1000000"
proof -
  have mem: "rings A ! 1 \<in> set (rings A)" for A
    by (simp add: rings_eq)
  have j: "(45::nat) \<le> 180"
    by simp
  from rings_geometry [OF accurate_exact] mem [of exact_arith]
  have "length (points (rings exact_arith ! 1)) = 181
   \<and> \<bar>radius (rings exact_arith ! 1) - 1.12\<bar> \<le> 1 / 1000000
   \<and> \<bar>vec_x (points (rings exact_arith ! 1) ! 0) - vec_x (points (rings exact_arith ! 1) ! 180)\<bar>
       \<le> 1 / 1000000"
    by blast
  moreover from rings_geometry [OF accurate_binary64] mem [of binary64_arith] j
  have "length (points (rings binary64_arith ! 1)) = 181
   \<and> \<bar>radius (rings binary64_arith ! 1) - 1.12\<bar> \<le> 1 / 1000000
   \<and> \<bar>vec_x (points (rings binary64_arith ! 1) ! 0) - vec_x (points (rings binary64_arith ! 1) ! 180)\<bar>
       \<le> 1 / 1000000
   \<and> \<bar>vec_z (points (rings binary64_arith ! 1) ! 45) - (- 0.2)\<bar> \<le> 1 / 1000000"
    by blast
  ultimately show ?thesis
    by blast
qed

subsection \<open>The rings in exact arithmetic\<close>

text \<open>Without rounding the radii are 0.9, 1.12 and 1.34 and the circles close exactly.\<close>

lemma ring_vertex_exact:
  "ring_vertex exact_arith R 180 j =
     \<lparr>vec_x = cos (real j / 180 * pi * 2) * R, vec_y = sin (real j / 180 * pi * 2) * R,
      vec_z = - 0.2\<rparr>"
  by (simp add: ring_vertex_def Let_def)

lemma radius_ring_spec_exact: "radius (ring_spec exact_arith i) = 0.9 + real i * 0.22"
  by (simp add: ring_spec_def Let_def del: upt_Suc)

lemma set_points_ring_spec:
  "v \<in> set (points (ring_spec A i)) \<Longrightarrow>
     \<exists>j. v = ring_vertex A (radius (ring_spec A i)) 180 j"
  by (auto simp add: ring_spec_def Let_def simp del: upt_Suc)

lemma ring_spec_exact_geometry:
  "length (points (ring_spec exact_arith i)) = 181
   \<and> (\<forall>j\<le>180. points (ring_spec exact_arith i) ! j =
         \<lparr>vec_x = cos (real j / 180 * pi * 2) * radius (ring_spec exact_arith i),
          vec_y = sin (real j / 180 * pi * 2) * radius (ring_spec exact_arith i),
          vec_z = - 0.2\<rparr>)
   \<and> (\<forall>v\<in>set (points (ring_spec exact_arith i)).
         vec_z v = - 0.2 \<and> (vec_x v)\<^sup>2 + (vec_y v)\<^sup>2 = (radius (ring_spec exact_arith i))\<^sup>2)
   \<and> points (ring_spec exact_arith i) ! 0 = points (ring_spec exact_arith i) ! 180"
proof (intro conjI allI impI ballI)
  show "length (points (ring_spec exact_arith i)) = 181"
    by (rule length_points_ring_spec)
next
  fix j :: nat assume "j \<le> 180"
  then show "points (ring_spec exact_arith i) ! j =
         \<lparr>vec_x = cos (real j / 180 * pi * 2) * radius (ring_spec exact_arith i),
          vec_y = sin (real j / 180 * pi * 2) * radius (ring_spec exact_arith i),
          vec_z = - 0.2\<rparr>"
    by (simp only: points_ring_spec_nth ring_vertex_exact)
next
  fix v assume "v \<in> set (points (ring_spec exact_arith i))"
  then obtain j where v: "v = ring_vertex exact_arith (radius (ring_spec exact_arith i)) 180 j"
    using set_points_ring_spec by blast
  show "vec_z v = - 0.2"
    by (simp add: v ring_vertex_exact)
  define t where "t = real j / 180 * pi * 2"
  define R where "R = radius (ring_spec exact_arith i)"
  have "(vec_x v)\<^sup>2 + (vec_y v)\<^sup>2 = (cos t * R)\<^sup>2 + (sin t * R)\<^sup>2"
    by (simp add: v ring_vertex_exact t_def R_def)
  also have "\<dots> = ((cos t)\<^sup>2 + (sin t)\<^sup>2) * R\<^sup>2"
    by (simp only: power_mult_distrib distrib_right)
  also have "\<dots> = R\<^sup>2"
    by simp
  finally show "(vec_x v)\<^sup>2 + (vec_y v)\<^sup>2 = (radius (ring_spec exact_arith i))\<^sup>2"
    by (simp only: R_def)
next
  have "points (ring_spec exact_arith i) ! 0 = ring_vertex exact_arith (radius (ring_spec exact_arith i)) 180 0"
    by (rule points_ring_spec_nth) simp
  moreover have "points (ring_spec exact_arith i) ! 180 = ring_vertex exact_arith (radius (ring_spec exact_arith i)) 180 180"
    by (rule points_ring_spec_nth) simp
  ultimately show "points (ring_spec exact_arith i) ! 0 = points (ring_spec exact_arith i) ! 180"
    by (simp add: ring_vertex_exact)
qed

lemma rings_exact_geometry:
  "length (rings exact_arith) = 3
   \<and> map radius (rings exact_arith) = [0.9, 1.12, 1.34]
   \<and> (\<forall>ring\<in>set (rings exact_arith).
        length (points ring) = 181
      \<and> (\<forall>j\<le>180. points ring ! j =
            \<lparr>vec_x = cos (real j / 180 * pi * 2) * radius ring,
             vec_y = sin (real j / 180 * pi * 2) * radius ring,
             vec_z = - 0.2\<rparr>)
      \<and> (\<forall>v\<in>set (points ring). vec_z v = - 0.2 \<and> (vec_x v)\<^sup>2 + (vec_y v)\<^sup>2 = (radius ring)\<^sup>2)
      \<and> points ring ! 0 = points ring ! 180)"
proof -
  have len: "length (rings exact_arith) = 3"
    by (simp add: rings_eq)
  have radii: "map radius (rings exact_arith) = [0.9, 1.12, 1.34]"
    by (simp add: rings_eq radius_ring_spec_exact)
  have each: "ring \<in> set (rings exact_arith) \<Longrightarrow>
        length (points ring) = 181
      \<and> (\<forall>j\<le>180. points ring ! j =
            \<lparr>vec_x = cos (real j / 180 * pi * 2) * radius ring,
             vec_y = sin (real j / 180 * pi * 2) * radius ring,
             vec_z = - 0.2\<rparr>)
      \<and> (\<forall>v\<in>set (points ring). vec_z v = - 0.2 \<and> (vec_x v)\<^sup>2 + (vec_y v)\<^sup>2 = (radius ring)\<^sup>2)
      \<and> points ring ! 0 = points ring ! 180" for ring
  proof -
    assume "ring \<in> set (rings exact_arith)"
    then obtain i where ring: "ring = ring_spec exact_arith i"
      by (auto simp: rings_eq)
    show ?thesis
      unfolding ring by (rule ring_spec_exact_geometry)
  qed
  from len radii each show ?thesis
    by blast
qed

section \<open>The iris shader: results\<close>

lemma glsl_mix_lerp: "glsl_mix x y a = lerp x y a"
  by (simp add: glsl_mix_def lerp_def algebra_simps)

lemma glsl_mix3_lerp3: "glsl_mix3 x y a = lerp3 x y a"
  by (cases x; cases y) (simp add: glsl_mix_lerp)

lemma fragment_Iris_BG: "fragment_Iris t P S G vUv = fragment_BG t P S G vUv"
  by (simp add: fragment_Iris_def fragment_BG_def Let_def)

lemma toPolar_reference:
  "toPolar p = (sqrt ((fst p)\<^sup>2 + (snd p)\<^sup>2), atan2 (snd p) (fst p))"
  by (cases p) (simp add: toPolar_def power2_eq_square)

lemma glsl_scale3_case:
  "glsl_scale3 v s = (case v of (c1, c2, c3) \<Rightarrow> (c1 * s, c2 * s, c3 * s))"
  by (cases v) simp

text \<open>
  C1. The fragment shader of either component computes the specification's reference
  definition: for every surface coordinate \<open>uv\<close> (in the unit square or not), every time
  \<open>t\<close> and every three colours, the two give the same colour and the same alpha.
\<close>

theorem fragment_refines_reference:
  "fragment_BG t primary secondary glint uv = iris_reference t primary secondary glint uv
   \<and> fragment_Iris t primary secondary glint uv = iris_reference t primary secondary glint uv"
proof -
  have "fragment_BG t primary secondary glint uv = iris_reference t primary secondary glint uv"
    unfolding fragment_BG_def iris_reference_def Let_def toPolar_reference glsl_mix3_lerp3
      glsl_mix_lerp glsl_scale3_case fst_conv snd_conv
    by (simp only: mult.commute add.commute)
  then show ?thesis
    by (simp add: fragment_Iris_BG)
qed

lemma clamp_cases:
  "glsl_clamp x 0 1 = (if x \<le> 0 then 0 else if 1 \<le> x then 1 else x)"
  by (simp add: glsl_clamp_def min_def max_def)

lemma hermite_bounds:
  fixes q :: real
  assumes "0 < q" and "q < 1"
  shows "0 < q * q * (3 - 2 * q)" and "q * q * (3 - 2 * q) < 1"
proof -
  from assms show "0 < q * q * (3 - 2 * q)"
    by simp
  have "1 - q * q * (3 - 2 * q) = (1 - q) * (1 - q) * (2 * q + 1)"
    by (simp add: algebra_simps)
  moreover from assms have "0 < (1 - q) * (1 - q) * (2 * q + 1)"
    by simp
  ultimately show "q * q * (3 - 2 * q) < 1"
    by simp
qed

lemma smoothstep_reversed:
  assumes "edge1 < edge0"
  shows "smoothstep edge0 edge1 x =
     (if x \<le> edge1 then 1 else if edge0 \<le> x then 0
      else (edge0 - x) / (edge0 - edge1) * ((edge0 - x) / (edge0 - edge1))
           * (3 - 2 * ((edge0 - x) / (edge0 - edge1))))"
proof -
  define q where "q = (edge0 - x) / (edge0 - edge1)"
  have "(x - edge0) / (edge1 - edge0) = (- (edge0 - x)) / (- (edge0 - edge1))"
    by simp
  also have "\<dots> = q"
    unfolding q_def by (rule minus_divide_divide)
  finally have s: "smoothstep edge0 edge1 x =
      glsl_clamp q 0 1 * glsl_clamp q 0 1 * (3 - 2 * glsl_clamp q 0 1)"
    by (simp add: smoothstep_def Let_def)
  from assms have q1: "1 \<le> q \<longleftrightarrow> x \<le> edge1"
    by (simp add: q_def field_simps)
  from assms have q0: "q \<le> 0 \<longleftrightarrow> edge0 \<le> x"
    by (simp add: q_def field_simps)
  show ?thesis
    unfolding s clamp_cases q1 q0 using assms by (auto simp: q_def)
qed

lemma smoothstep_reversed_one: "edge1 < edge0 \<Longrightarrow> x \<le> edge1 \<Longrightarrow> smoothstep edge0 edge1 x = 1"
  by (simp add: smoothstep_reversed)

lemma smoothstep_reversed_between:
  assumes "edge1 < x" and "x < edge0"
  shows "0 < smoothstep edge0 edge1 x" and "smoothstep edge0 edge1 x < 1"
proof -
  define q where "q = (edge0 - x) / (edge0 - edge1)"
  from assms have q: "0 < q" "q < 1"
    by (simp_all add: q_def field_simps)
  from assms have "smoothstep edge0 edge1 x = q * q * (3 - 2 * q)"
    by (simp add: smoothstep_reversed q_def)
  with hermite_bounds [OF q]
  show "0 < smoothstep edge0 edge1 x" and "smoothstep edge0 edge1 x < 1"
    by simp_all
qed

lemma smoothstep_reversed_zero:
  assumes "edge1 < edge0"
  shows "smoothstep edge0 edge1 x = 0 \<longleftrightarrow> edge0 \<le> x"
proof (cases "edge0 \<le> x")
  case True
  with assms show ?thesis by (simp add: smoothstep_reversed)
next
  case False
  show ?thesis
  proof (cases "x \<le> edge1")
    case True
    with assms False show ?thesis by (simp add: smoothstep_reversed)
  next
    case outside: False
    with False smoothstep_reversed_between(1) [of edge1 x edge0] show ?thesis
      by simp
  qed
qed

text \<open>
  C7. The alpha channel of either shader is \<open>smoothstep(0.99, 0.96, r)\<close> at the pixel's
  radius \<open>r\<close>. It is 1 at \<open>r = 0.96\<close> and for every \<open>r \<le> 0.96\<close>, it is 0 exactly when
  \<open>r \<ge> 0.99\<close>, and at \<open>r = 0.975\<close> it lies strictly between 0 and 1.
\<close>

theorem alpha_channel:
  "snd (fragment_BG t P S G vUv) = smoothstep 0.99 0.96 (fst (toPolar (fst vUv * 2 - 1, snd vUv * 2 - 1)))
   \<and> snd (fragment_Iris t P S G vUv) = smoothstep 0.99 0.96 (fst (toPolar (fst vUv * 2 - 1, snd vUv * 2 - 1)))
   \<and> smoothstep 0.99 0.96 0.96 = 1
   \<and> (\<forall>r\<le>0.96. smoothstep 0.99 0.96 r = 1)
   \<and> (\<forall>r. smoothstep 0.99 0.96 r = 0 \<longleftrightarrow> 0.99 \<le> r)
   \<and> 0 < smoothstep 0.99 0.96 0.975 \<and> smoothstep 0.99 0.96 0.975 < 1"
proof -
  have "snd (fragment_BG t P S G vUv) = smoothstep 0.99 0.96 (fst (toPolar (fst vUv * 2 - 1, snd vUv * 2 - 1)))"
    by (simp add: fragment_BG_def Let_def)
  moreover have "\<forall>r\<le>0.96. smoothstep 0.99 0.96 r = 1"
    by (simp add: smoothstep_reversed_one)
  moreover have "\<forall>r. smoothstep 0.99 0.96 r = 0 \<longleftrightarrow> 0.99 \<le> r"
    by (simp add: smoothstep_reversed_zero)
  moreover have "0 < smoothstep 0.99 0.96 0.975" "smoothstep 0.99 0.96 0.975 < 1"
    by (simp_all add: smoothstep_reversed_between)
  ultimately show ?thesis
    by (simp add: fragment_Iris_BG)
qed

theorem alpha_channel_witness:
  "snd (fragment_BG 0 (0, 0, 1) (0, 1, 0) (1, 0, 0) (0.98, 0.5)) = 1
   \<and> snd (fragment_BG 0 (0, 0, 1) (0, 1, 0) (1, 0, 0) (1, 0.5)) = 0
   \<and> snd (fragment_BG 0 (0, 0, 1) (0, 1, 0) (1, 0, 0) (0.5, 0.5)) = 1"
proof -
  have r: "fst (toPolar (x, 0)) = \<bar>x\<bar>" for x
    by (simp add: toPolar_def)
  from alpha_channel [of 0 "(0, 0, 1)" "(0, 1, 0)" "(1, 0, 0)" "(0.98, 0.5)"]
    alpha_channel [of 0 "(0, 0, 1)" "(0, 1, 0)" "(1, 0, 0)" "(1, 0.5)"]
    alpha_channel [of 0 "(0, 0, 1)" "(0, 1, 0)" "(1, 0, 0)" "(0.5, 0.5)"]
  show ?thesis
    by (simp add: r)
qed

end
